theory Spec2Isabelle
  imports Complex_Main
begin

section \<open>Python values\<close>

text \<open>
  The values that \<^verbatim>\<open>json.loads\<close> produces: None, booleans, unbounded integers, floats
  (read as the real number their literal denotes), strings, lists and dictionaries. A
  dictionary is the list of its items in insertion order; the parser hands out
  dictionaries whose keys are distinct.
\<close>

datatype json =
    JNull
  | JBool bool
  | JInt int
  | JFloat real
  | JStr string
  | JArr "json list"
  | JObj "(string \<times> json) list"

text \<open>
  An exception is modelled by its class (and, for a KeyError, the missing key); message
  texts are not modelled. \<open>Exception\<close> is the plain exception that \<^verbatim>\<open>call_ollama\<close>
  raises. \<open>SqliteBindError\<close> is the class that \<^verbatim>\<open>sqlite3\<close> raises for a parameter of a
  type it cannot bind (\<^verbatim>\<open>InterfaceError\<close> up to Python 3.10, \<^verbatim>\<open>ProgrammingError\<close> from 3.11).
  \<open>UnicodeEncodeError\<close> is what \<^verbatim>\<open>print\<close> raises for text that the output stream cannot
  encode.
\<close>

datatype py_exception =
    ConnectionError
  | JSONDecodeError
  | KeyError string
  | TypeError
  | AttributeError
  | ValueError
  | ImportError
  | SqliteBindError
  | IntegrityError
  | OverflowError
  | OSError
  | UnicodeEncodeError
  | Exception

text \<open>\<^verbatim>\<open>obj[key]\<close> with a string key: only a dictionary that has the key answers.\<close>

fun py_getitem :: "json \<Rightarrow> string \<Rightarrow> py_exception + json" where
  "py_getitem (JObj kvs) k = (case map_of kvs k of None \<Rightarrow> Inl (KeyError k) | Some v \<Rightarrow> Inr v)"
| "py_getitem _ k = Inl TypeError"

text \<open>\<^verbatim>\<open>obj.get(key, default)\<close>: a method of dictionaries only.\<close>

fun py_get :: "json \<Rightarrow> string \<Rightarrow> json \<Rightarrow> py_exception + json" where
  "py_get (JObj kvs) k d = Inr (case map_of kvs k of None \<Rightarrow> d | Some v \<Rightarrow> v)"
| "py_get _ k d = Inl AttributeError"

text \<open>
  Iteration (\<^verbatim>\<open>for x in obj\<close>, \<^verbatim>\<open>enumerate(obj)\<close>): a list yields its elements, a
  dictionary its keys, a string its characters; nothing else is iterable.
\<close>

fun py_iter :: "json \<Rightarrow> py_exception + json list" where
  "py_iter (JArr xs) = Inr xs"
| "py_iter (JObj kvs) = Inr (map (\<lambda>kv. JStr (fst kv)) kvs)"
| "py_iter (JStr s) = Inr (map (\<lambda>c. JStr [c]) s)"
| "py_iter _ = Inl TypeError"

text \<open>
  Sequencing of steps that may raise: the first exception ends the computation.
  \<open>collect\<close> is a list comprehension whose element expression may raise.
\<close>

definition then_do :: "'e + 'a \<Rightarrow> ('a \<Rightarrow> 'e + 'b) \<Rightarrow> 'e + 'b" where
  "then_do r f = (case r of Inl x \<Rightarrow> Inl x | Inr v \<Rightarrow> f v)"

fun collect :: "('a \<Rightarrow> 'e + 'b) \<Rightarrow> 'a list \<Rightarrow> 'e + 'b list" where
  "collect f [] = Inr []"
| "collect f (x # xs) =
     (case f x of
        Inl err \<Rightarrow> Inl err
      | Inr y \<Rightarrow> (case collect f xs of Inl err \<Rightarrow> Inl err | Inr ys \<Rightarrow> Inr (y # ys)))"

fun is_str :: "json \<Rightarrow> bool" where
  "is_str (JStr s) = True"
| "is_str _ = False"

section \<open>Text helpers of the Python runtime\<close>

text \<open>\<^verbatim>\<open>str(n)\<close> for a natural number: its decimal digits, most significant first.\<close>

definition digit_char :: "nat \<Rightarrow> char" where
  "digit_char d = char_of (48 + d)"

function str_nat :: "nat \<Rightarrow> string" where
  "str_nat n = (if n < 10 then [digit_char n] else str_nat (n div 10) @ [digit_char (n mod 10)])"
  by pat_completeness auto
termination
  by (relation "measure id") auto

declare str_nat.simps [simp del]

text \<open>\<^verbatim>\<open>sep.join(parts)\<close>.\<close>

fun join :: "string \<Rightarrow> string list \<Rightarrow> string" where
  "join sep [] = []"
| "join sep [x] = x"
| "join sep (x # y # ys) = x @ sep @ join sep (y # ys)"

text \<open>
  \<^verbatim>\<open>s.strip()\<close>: leading and trailing whitespace removed. Which characters are
  whitespace is decided by the runtime (every Unicode whitespace character is); the
  predicate is the first argument.
\<close>

definition strip :: "(char \<Rightarrow> bool) \<Rightarrow> string \<Rightarrow> string" where
  "strip is_space s = rev (dropWhile is_space (rev (dropWhile is_space s)))"

text \<open>\<^verbatim>\<open>str(i)\<close> for an integer.\<close>

definition str_int :: "int \<Rightarrow> string" where
  "str_int i = (if i < 0 then CHR ''-'' # str_nat (nat (- i)) else str_nat (nat i))"

text \<open>\<^verbatim>\<open>s.lower()\<close> on ASCII letters.\<close>

definition lower_char :: "char \<Rightarrow> char" where
  "lower_char c =
     (let n = (of_char c :: nat) in if 65 \<le> n \<and> n \<le> 90 then char_of (n + 32) else c)"

definition lower :: "string \<Rightarrow> string" where
  "lower s = map lower_char s"

section \<open>Speaker detection (audio_processor.py)\<close>

text \<open>
  A transcription segment. Times are seconds: the values of the source's floats, as real
  numbers. \<open>speaker\<close> is \<open>None\<close> until speaker detection has run.
\<close>

record segment =
  seg_start :: real
  seg_end :: real
  seg_text :: string
  speaker :: "string option"

text \<open>The label \<^verbatim>\<open>f"Speaker {speaker_id}"\<close>.\<close>

definition speaker_label :: "nat \<Rightarrow> string" where
  "speaker_label speaker_id = ''Speaker '' @ str_nat speaker_id"

text \<open>
  The loop of \<^verbatim>\<open>detect_speakers_simple\<close>, with its two variables \<open>speaker_id\<close> and
  \<open>last_end\<close> as arguments. The source subtracts two floats: \<open>sub\<close> is that subtraction,
  which rounds its result to a float; it is an argument, and the comparison of its
  result with 2.0 is exact.
\<close>

fun label_speakers ::
  "(real \<Rightarrow> real \<Rightarrow> real) \<Rightarrow> nat \<Rightarrow> real \<Rightarrow> segment list \<Rightarrow> segment list" where
  "label_speakers sub speaker_id last_end [] = []"
| "label_speakers sub speaker_id last_end (seg # segs) =
     (let speaker_id' = (if sub (seg_start seg) last_end > 2 then speaker_id + 1 else speaker_id)
      in seg\<lparr>speaker := Some (speaker_label speaker_id')\<rparr>
           # label_speakers sub speaker_id' (seg_end seg) segs)"

definition detect_speakers_simple ::
  "(real \<Rightarrow> real \<Rightarrow> real) \<Rightarrow> segment list \<Rightarrow> segment list" where
  "detect_speakers_simple sub segments =
     (if segments = [] then segments else label_speakers sub 1 0 segments)"

text \<open>
  The speaker numbers that the loop hands out, without the label text: the list the
  statements about "a new incrementing label" are made of.
\<close>

fun speaker_ids ::
  "(real \<Rightarrow> real \<Rightarrow> real) \<Rightarrow> nat \<Rightarrow> real \<Rightarrow> segment list \<Rightarrow> nat list" where
  "speaker_ids sub speaker_id last_end [] = []"
| "speaker_ids sub speaker_id last_end (seg # segs) =
     (let speaker_id' = (if sub (seg_start seg) last_end > 2 then speaker_id + 1 else speaker_id)
      in speaker_id' # speaker_ids sub speaker_id' (seg_end seg) segs)"

text \<open>
  \<^verbatim>\<open>format_transcript_with_speakers\<close>: consecutive segments of one speaker become a
  heading line and a line of their stripped texts. The loop state is the list of lines,
  the current speaker and the current texts; the first argument is the whitespace
  predicate of \<^verbatim>\<open>strip\<close>.
\<close>

definition flush_speaker :: "string list \<Rightarrow> string option \<Rightarrow> string list \<Rightarrow> string list" where
  "flush_speaker lines current_speaker current_text =
     (case current_speaker of
        None \<Rightarrow> lines
      | Some name \<Rightarrow>
          if name \<noteq> [] \<and> current_text \<noteq> []
          then lines @ [CHR 0x0A # name @ '':'', join '' '' current_text]
          else lines)"

fun format_loop ::
  "(char \<Rightarrow> bool) \<Rightarrow> string list \<Rightarrow> string option \<Rightarrow> string list \<Rightarrow> segment list
     \<Rightarrow> string list" where
  "format_loop is_space lines current_speaker current_text [] =
     flush_speaker lines current_speaker current_text"
| "format_loop is_space lines current_speaker current_text (seg # segs) =
     (if speaker seg \<noteq> current_speaker
      then format_loop is_space (flush_speaker lines current_speaker current_text)
             (speaker seg) [strip is_space (seg_text seg)] segs
      else format_loop is_space lines current_speaker
             (current_text @ [strip is_space (seg_text seg)]) segs)"

definition format_transcript_with_speakers :: "(char \<Rightarrow> bool) \<Rightarrow> segment list \<Rightarrow> string" where
  "format_transcript_with_speakers is_space segments =
     join [CHR 0x0A] (format_loop is_space [] None [] segments)"

section \<open>The annotation backend\<close>

text \<open>
  The outcome of one HTTP request: the \<^verbatim>\<open>requests\<close> call raised, or a response with its
  status code and body text arrived.
\<close>

datatype http_reply =
    RequestFailed py_exception
  | HttpResponse nat string

text \<open>
  The prompt of a generate request is one of two fixed templates around the first 8000
  characters of the document text.
\<close>

datatype prompt =
    DocumentPrompt string
  | SectionsPrompt string

text \<open>
  A raw transcript as a speech-to-text backend returns it: the full text, the language
  and the timed segments.
\<close>

record transcript =
  tr_text :: string
  tr_language :: string
  tr_segments :: "segment list"

text \<open>
  The diagnostics that the modelled functions write with \<^verbatim>\<open>print\<close>, one constructor per
  call site, with the value the message interpolates.
\<close>

datatype diagnostic =
    ErrorFetchingModels py_exception
  | JsonParsingError
  | ResponseWas string
  | ErrorInDocumentAnalysis py_exception
  | JsonParsingErrorInSections
  | ErrorInSectionAnalysis py_exception
  | AudioDuration real
  | LoadingWhisperModel string
  | TranscribingAudio string
  | TranscribingViaApi string

text \<open>
  What lies outside the program. The JSON codec of the standard library: \<open>json_loads\<close>
  is \<open>None\<close> when the parser raises JSONDecodeError. The model backend: one reply per
  call site (the two listings of installed models and the generate request). The
  standard output: the exception that printing a diagnostic raises, if any. The Python
  runtime: which characters are whitespace, and the subtraction of two floats. The
  storage engine: the number it reads a text as when the text is a well-formed numeric
  literal, and the text it renders a float as. The clock, as the timestamp that
  prefixes a saved file. The file system: whether a path can be opened for writing and
  what reading a saved file as text yields. The document libraries: whether they are
  installed and the page or paragraph texts they extract from a saved file. The audio
  libraries: which of them are installed, the duration they report, whether a speech
  model loads and an API client can be made, and the transcript they produce for a
  path, a language and a model size.
\<close>

record env =
  json_loads :: "string \<Rightarrow> json option"
  json_dumps :: "json \<Rightarrow> string"
  tags_for_status :: http_reply
  tags_for_models :: http_reply
  post_generate :: "string \<Rightarrow> prompt \<Rightarrow> http_reply"
  print_error :: "diagnostic \<Rightarrow> py_exception option"
  py_isspace :: "char \<Rightarrow> bool"
  float_sub :: "real \<Rightarrow> real \<Rightarrow> real"
  numeric_text :: "string \<Rightarrow> json option"
  float_text :: "real \<Rightarrow> string"
  now_stamp :: string
  writable :: "string \<Rightarrow> bool"
  read_text :: "string \<Rightarrow> py_exception + string"
  pdf_available :: bool
  pdf_pages :: "string \<Rightarrow> py_exception + string list"
  docx_available :: bool
  docx_paragraphs :: "string \<Rightarrow> py_exception + string list"
  whisper_available :: bool
  openai_available :: bool
  audio_duration :: "string \<Rightarrow> py_exception + real"
  whisper_load_model :: "string \<Rightarrow> py_exception option"
  openai_client :: "py_exception option"
  whisper_local :: "string \<Rightarrow> string \<Rightarrow> string \<Rightarrow> py_exception + transcript"
  whisper_api :: "string \<Rightarrow> string \<Rightarrow> py_exception + transcript"

text \<open>\<^verbatim>\<open>print(...)\<close> of a diagnostic: it returns nothing, or raises.\<close>

definition py_print :: "env \<Rightarrow> diagnostic \<Rightarrow> py_exception + unit" where
  "py_print e msg = (case print_error e msg of None \<Rightarrow> Inr () | Some x \<Rightarrow> Inl x)"

text \<open>\<^verbatim>\<open>json.loads(x)\<close>: a TypeError unless \<open>x\<close> is text.\<close>

definition loads_value :: "env \<Rightarrow> json \<Rightarrow> py_exception + json" where
  "loads_value e v =
     (case v of
        JStr s \<Rightarrow> (case json_loads e s of None \<Rightarrow> Inl JSONDecodeError | Some r \<Rightarrow> Inr r)
      | _ \<Rightarrow> Inl TypeError)"

text \<open>
  \<^verbatim>\<open>call_ollama\<close> (analysis_engine.py): every failure inside its \<^verbatim>\<open>try\<close> block, the
  non-200 status included, leaves as a plain \<open>Exception\<close>; on status 200 the result is
  the \<^verbatim>\<open>response\<close> field of the body, or the empty string when the field is absent.
\<close>

definition call_ollama :: "env \<Rightarrow> string \<Rightarrow> prompt \<Rightarrow> py_exception + json" where
  "call_ollama e model p =
     (case post_generate e model p of
        RequestFailed x \<Rightarrow> Inl Exception
      | HttpResponse code body \<Rightarrow>
          if code = 200 then
            (case json_loads e body of
               None \<Rightarrow> Inl Exception
             | Some data \<Rightarrow>
                 (case py_get data ''response'' (JStr '''') of
                    Inl x \<Rightarrow> Inl Exception
                  | Inr r \<Rightarrow> Inr r))
          else Inl Exception)"

definition get_default_analysis :: json where
  "get_default_analysis =
     JObj [
       (''overall_sentiment'', JStr ''neutral''),
       (''sentiment_score'', JInt 50),
       (''confidence_score'', JInt 50),
       (''clarity_score'', JInt 50),
       (''readability_score'', JInt 50),
       (''specificity_score'', JInt 50),
       (''key_themes'', JArr [JStr ''Analysis unavailable'']),
       (''emotional_tone'', JObj [
          (''positive'', JInt 33),
          (''negative'', JInt 33),
          (''neutral'', JInt 34),
          (''confident'', JInt 50),
          (''uncertain'', JInt 50)]),
       (''linguistic_metrics'', JObj [
          (''avgSentenceLength'', JFloat 20),
          (''complexWordRatio'', JFloat (3 / 10)),
          (''passiveVoiceRatio'', JFloat (2 / 10)),
          (''jargonDensity'', JFloat (25 / 100)),
          (''hedgingLanguage'', JFloat (15 / 100))])]"

definition get_default_sections :: "string \<Rightarrow> json" where
  "get_default_sections text =
     JArr [JObj [
       (''section_title'', JStr ''Full Document''),
       (''section_type'', JStr ''other''),
       (''speaker'', JNull),
       (''original_text'', JStr (take 500 text)),
       (''sentiment_score'', JInt 50),
       (''confidence_score'', JInt 50),
       (''clarity_score'', JInt 50),
       (''readability_score'', JInt 50),
       (''specificity_score'', JInt 50),
       (''issues'', JArr [JStr ''Analysis unavailable - check Ollama connection'']),
       (''suggested_revision'',
          JStr ''Unable to generate suggestions. Please ensure Ollama is running and a model is available.''),
       (''revision_rationale'',
          JStr ''Analysis requires a working Ollama installation with downloaded models.'')]]"

text \<open>
  \<^verbatim>\<open>analyze_document_content\<close>: the parsed reply as it is, whatever its shape. The
  handler of JSONDecodeError prints two diagnostics, the second with the first 500
  characters of the reply, and returns the default; the handler of every other
  exception prints one and returns the default. An exception that a \<^verbatim>\<open>print\<close> raises
  inside a handler leaves the function.
\<close>

definition analyze_document_content :: "env \<Rightarrow> string \<Rightarrow> string \<Rightarrow> py_exception + json" where
  "analyze_document_content e text model =
     (case call_ollama e model (DocumentPrompt (take 8000 text)) of
        Inl x \<Rightarrow>
          then_do (py_print e (ErrorInDocumentAnalysis x)) (\<lambda>u. Inr get_default_analysis)
      | Inr response_text \<Rightarrow>
          (case response_text of
             JStr s \<Rightarrow>
               (case json_loads e s of
                  Some result \<Rightarrow> Inr result
                | None \<Rightarrow>
                    then_do (py_print e JsonParsingError) (\<lambda>u.
                    then_do (py_print e (ResponseWas (take 500 s))) (\<lambda>u.
                      Inr get_default_analysis)))
           | _ \<Rightarrow>
               then_do (py_print e (ErrorInDocumentAnalysis TypeError)) (\<lambda>u.
                 Inr get_default_analysis)))"

text \<open>
  \<^verbatim>\<open>analyze_sections_content\<close>: \<^verbatim>\<open>result.get("sections", [])\<close> of the parsed reply; the
  same two handlers, with the default sections. The AttributeError of a reply that is
  not a dictionary goes to the second handler.
\<close>

definition analyze_sections_content :: "env \<Rightarrow> string \<Rightarrow> string \<Rightarrow> py_exception + json" where
  "analyze_sections_content e text model =
     (case call_ollama e model (SectionsPrompt (take 8000 text)) of
        Inl x \<Rightarrow>
          then_do (py_print e (ErrorInSectionAnalysis x)) (\<lambda>u. Inr (get_default_sections text))
      | Inr response_text \<Rightarrow>
          (case response_text of
             JStr s \<Rightarrow>
               (case json_loads e s of
                  Some result \<Rightarrow>
                    (case py_get result ''sections'' (JArr []) of
                       Inl x \<Rightarrow>
                         then_do (py_print e (ErrorInSectionAnalysis x)) (\<lambda>u.
                           Inr (get_default_sections text))
                     | Inr secs \<Rightarrow> Inr secs)
                | None \<Rightarrow>
                    then_do (py_print e JsonParsingErrorInSections) (\<lambda>u.
                    then_do (py_print e (ResponseWas (take 500 s))) (\<lambda>u.
                      Inr (get_default_sections text))))
           | _ \<Rightarrow>
               then_do (py_print e (ErrorInSectionAnalysis TypeError)) (\<lambda>u.
                 Inr (get_default_sections text))))"

text \<open>
  The two situations of a backend call that the fallback is specified for: the call
  raised, or it returned text that the JSON parser rejects.
\<close>

definition call_fails_or_not_json :: "env \<Rightarrow> string \<Rightarrow> prompt \<Rightarrow> bool" where
  "call_fails_or_not_json e model p =
     (case call_ollama e model p of
        Inl x \<Rightarrow> True
      | Inr (JStr s) \<Rightarrow> json_loads e s = None
      | Inr _ \<Rightarrow> False)"

section \<open>Backend status and installed models (analysis_engine.py)\<close>

text \<open>
  The list comprehension \<^verbatim>\<open>[model["name"] for model in data.get("models", [])]\<close> over the
  parsed body of a model listing, with each step that can raise.
\<close>

definition listed_model_names :: "env \<Rightarrow> string \<Rightarrow> py_exception + json list" where
  "listed_model_names e body =
     (case json_loads e body of
        None \<Rightarrow> Inl JSONDecodeError
      | Some data \<Rightarrow>
          then_do (py_get data ''models'' (JArr [])) (\<lambda>ms.
          then_do (py_iter ms) (\<lambda>items.
          collect (\<lambda>m. py_getitem m ''name'') items)))"

text \<open>
  The \<^verbatim>\<open>error\<close> entry of an unavailable status: "Ollama not responding", "Cannot
  connect to Ollama. Is it running?", or the text of another exception.
\<close>

datatype status_error =
    NotResponding
  | CannotConnect
  | OtherError py_exception

datatype ollama_status =
    Available "json list"
  | Unavailable status_error

definition check_ollama_status :: "env \<Rightarrow> ollama_status" where
  "check_ollama_status e =
     (case tags_for_status e of
        RequestFailed x \<Rightarrow>
          if x = ConnectionError then Unavailable CannotConnect else Unavailable (OtherError x)
      | HttpResponse code body \<Rightarrow>
          if code = 200 then
            (case listed_model_names e body of
               Inl x \<Rightarrow> Unavailable (OtherError x)
             | Inr models \<Rightarrow> Available models)
          else Unavailable NotResponding)"

text \<open>
  \<^verbatim>\<open>get_available_models\<close>: the handler of its \<^verbatim>\<open>try\<close> block prints the exception and
  returns the empty list.
\<close>

definition get_available_models :: "env \<Rightarrow> py_exception + json list" where
  "get_available_models e =
     (case tags_for_models e of
        RequestFailed x \<Rightarrow> then_do (py_print e (ErrorFetchingModels x)) (\<lambda>u. Inr [])
      | HttpResponse code body \<Rightarrow>
          if code = 200 then
            (case listed_model_names e body of
               Inl x \<Rightarrow> then_do (py_print e (ErrorFetchingModels x)) (\<lambda>u. Inr [])
             | Inr models \<Rightarrow> Inr models)
          else Inr [])"

section \<open>Paths and text extraction (document_processor.py)\<close>

text \<open>\<^verbatim>\<open>s.split(c)\<close> for a one-character separator: the result is never empty.\<close>

fun split_on :: "char \<Rightarrow> string \<Rightarrow> string list" where
  "split_on c [] = [[]]"
| "split_on c (x # xs) =
     (if x = c then [] # split_on c xs
      else (case split_on c xs of [] \<Rightarrow> [[x]] | part # parts \<Rightarrow> (x # part) # parts))"

text \<open>
  \<^verbatim>\<open>os.path.splitext(p)[1]\<close> on POSIX: the extension starts at the last dot of the part
  after the last slash, unless only dots precede it there.
\<close>

definition after_last :: "char \<Rightarrow> string \<Rightarrow> string" where
  "after_last c p = rev (takeWhile (\<lambda>x. x \<noteq> c) (rev p))"

definition splitext_ext :: "string \<Rightarrow> string" where
  "splitext_ext p =
     (let base = after_last CHR ''/'' p;
          tail = after_last CHR ''.'' base;
          stem = take (length base - length tail - 1) base
      in if CHR ''.'' \<in> set base \<and> \<not> list_all (\<lambda>x. x = CHR ''.'') stem
         then CHR ''.'' # tail else [])"

text \<open>
  \<^verbatim>\<open>Path(p).suffix\<close>: the name is the last component that is neither empty nor a single
  dot; its suffix starts at its last dot when that dot is neither its first nor its last
  character.
\<close>

definition path_name :: "string \<Rightarrow> string" where
  "path_name p =
     (case filter (\<lambda>part. part \<noteq> [] \<and> part \<noteq> ''.'') (split_on CHR ''/'' p) of
        [] \<Rightarrow> []
      | part # parts \<Rightarrow> last (part # parts))"

definition path_suffix :: "string \<Rightarrow> string" where
  "path_suffix p =
     (let name = path_name p; tail = after_last CHR ''.'' name
      in if CHR ''.'' \<in> set name \<and> tail \<noteq> [] \<and> length tail + 1 < length name
         then CHR ''.'' # tail else [])"

definition extract_text_from_pdf :: "env \<Rightarrow> string \<Rightarrow> py_exception + string" where
  "extract_text_from_pdf e file_path =
     (if \<not> pdf_available e then Inl ImportError
      else then_do (pdf_pages e file_path) (\<lambda>pages. Inr (join [CHR 0x0A, CHR 0x0A] pages)))"

definition extract_text_from_docx :: "env \<Rightarrow> string \<Rightarrow> py_exception + string" where
  "extract_text_from_docx e file_path =
     (if \<not> docx_available e then Inl ImportError
      else then_do (docx_paragraphs e file_path) (\<lambda>paragraphs.
        Inr (join [CHR 0x0A, CHR 0x0A]
               (filter (\<lambda>t. strip (py_isspace e) t \<noteq> []) paragraphs))))"

definition extract_text_from_txt :: "env \<Rightarrow> string \<Rightarrow> py_exception + string" where
  "extract_text_from_txt e file_path = read_text e file_path"

definition extract_text_from_file :: "env \<Rightarrow> string \<Rightarrow> py_exception + string" where
  "extract_text_from_file e file_path =
     (let ext = lower (path_suffix file_path)
      in if ext = ''.pdf'' then extract_text_from_pdf e file_path
         else if ext = ''.docx'' then extract_text_from_docx e file_path
         else if ext \<in> set [''.txt'', ''.text''] then extract_text_from_txt e file_path
         else if ext = ''.doc'' then
           (case extract_text_from_txt e file_path of
              Inl x \<Rightarrow> Inl ValueError
            | Inr t \<Rightarrow> Inr t)
         else Inl ValueError)"

text \<open>
  \<^verbatim>\<open>validate_file_size\<close>, on the size in bytes that \<^verbatim>\<open>os.path.getsize\<close> reports. No
  request handler calls it.
\<close>

definition validate_file_size :: "nat \<Rightarrow> nat \<Rightarrow> bool" where
  "validate_file_size file_size max_size_mb = (file_size \<le> max_size_mb * 1024 * 1024)"

section \<open>Storage (database.py)\<close>

text \<open>
  The five tables. Rows of documents, analyses, sections and metrics_history are never
  deleted, so with AUTOINCREMENT keys the row with id \<open>k\<close> is the \<open>k\<close>-th row inserted:
  these tables are lists in insertion order and a row's id is its position, counted
  from 1. Comparisons can be deleted: that table is a map from id to row, next to the
  last id handed out. Timestamps are not stored; insertion order stands for creation
  order. A column holds the value that the engine stores for the bound one, after the
  conversion that the column's type affinity applies. \<open>journal\<close> records every committed
  write of a document's status column, in commit order, next to the column itself; no
  operation reads it.
\<close>

record scores =
  sentiment_score :: json
  confidence_score :: json
  clarity_score :: json
  readability_score :: json
  specificity_score :: json

record document =
  title :: string
  document_type :: string
  file_path :: string
  status :: string

record analysis = scores +
  document_id :: int
  overall_sentiment :: json
  key_themes :: string
  emotional_tone :: string
  linguistic_metrics :: string

record section_row = scores +
  analysis_id :: int
  section_title :: json
  section_type :: json
  section_speaker :: json
  original_text :: json
  issues :: string
  suggested_revision :: json
  revision_rationale :: json
  section_order :: int

record metrics = scores +
  metrics_document_id :: int
  metrics_analysis_id :: int
  metrics_document_type :: string

record comparison =
  comparison_title :: string
  description :: "string option"
  document_ids :: string

record db =
  documents :: "document list"
  analyses :: "analysis list"
  sections :: "section_row list"
  comparisons :: "int \<rightharpoonup> comparison"
  comparison_seq :: int
  metrics_history :: "metrics list"
  journal :: "(int \<times> string) list"

definition init_db :: db where
  "init_db =
     \<lparr> documents = [], analyses = [], sections = [], comparisons = Map.empty,
       comparison_seq = 0, metrics_history = [], journal = [] \<rparr>"

text \<open>
  Binding a Python value to a statement parameter: lists and dictionaries are refused,
  and so is an integer outside the signed 64-bit range.
\<close>

fun bind_error :: "json \<Rightarrow> py_exception option" where
  "bind_error (JArr xs) = Some SqliteBindError"
| "bind_error (JObj kvs) = Some SqliteBindError"
| "bind_error (JInt n) = (if - (2 ^ 63) \<le> n \<and> n < 2 ^ 63 then None else Some OverflowError)"
| "bind_error _ = None"

fun first_bind_error :: "json list \<Rightarrow> py_exception option" where
  "first_bind_error [] = None"
| "first_bind_error (v # vs) =
     (case bind_error v of Some x \<Rightarrow> Some x | None \<Rightarrow> first_bind_error vs)"

text \<open>
  Type affinity. A column declared INTEGER stores a float that is a whole number within
  the signed 64-bit range as that integer, and a text that is a well-formed numeric
  literal as the number it denotes; a column declared TEXT stores a number as its text.
  A Python boolean is bound as the integer 1 or 0. None is stored as NULL in both.
\<close>

definition integer_affinity :: "env \<Rightarrow> json \<Rightarrow> json" where
  "integer_affinity e v =
     (case v of
        JBool b \<Rightarrow> JInt (if b then 1 else 0)
      | JFloat x \<Rightarrow>
          if x = of_int \<lfloor>x\<rfloor> \<and> - (2 ^ 63) \<le> \<lfloor>x\<rfloor> \<and> \<lfloor>x\<rfloor> < 2 ^ 63 then JInt \<lfloor>x\<rfloor> else JFloat x
      | JStr s \<Rightarrow> (case numeric_text e s of Some number \<Rightarrow> number | None \<Rightarrow> JStr s)
      | _ \<Rightarrow> v)"

definition text_affinity :: "env \<Rightarrow> json \<Rightarrow> json" where
  "text_affinity e v =
     (case v of
        JBool b \<Rightarrow> JStr (if b then ''1'' else ''0'')
      | JInt n \<Rightarrow> JStr (str_int n)
      | JFloat x \<Rightarrow> JStr (float_text e x)
      | _ \<Rightarrow> v)"

definition score_values :: "'a scores_scheme \<Rightarrow> json list" where
  "score_values sc =
     [sentiment_score sc, confidence_score sc, clarity_score sc, readability_score sc,
      specificity_score sc]"

definition create_document :: "db \<Rightarrow> string \<Rightarrow> string \<Rightarrow> string \<Rightarrow> int \<times> db" where
  "create_document d ttl dtype path =
     (let new_id = int (length (documents d)) + 1
      in (new_id,
          d\<lparr> documents := documents d @
                [\<lparr> title = ttl, document_type = dtype, file_path = path,
                   status = ''uploading'' \<rparr>],
             journal := journal d @ [(new_id, ''uploading'')] \<rparr>))"

text \<open>
  \<^verbatim>\<open>get_document\<close>: an id outside the signed 64-bit range cannot be bound to the query;
  otherwise the row with that id, if there is one.
\<close>

definition get_document :: "db \<Rightarrow> int \<Rightarrow> py_exception + document option" where
  "get_document d i =
     (if i < - (2 ^ 63) \<or> 2 ^ 63 \<le> i then Inl OverflowError
      else if 1 \<le> i \<and> i \<le> int (length (documents d))
      then Inr (Some (documents d ! nat (i - 1)))
      else Inr None)"

text \<open>
  \<^verbatim>\<open>update_document_status\<close>, for the ids that the handlers pass, which are ids that
  \<open>create_document\<close> returned: the status column of that row is overwritten.
\<close>

definition update_document_status :: "db \<Rightarrow> int \<Rightarrow> string \<Rightarrow> db" where
  "update_document_status d i st =
     (if 1 \<le> i \<and> i \<le> int (length (documents d))
      then d\<lparr> documents := (documents d)[nat (i - 1) := (documents d ! nat (i - 1))\<lparr>status := st\<rparr>],
              journal := journal d @ [(i, st)] \<rparr>
      else d)"

definition create_analysis ::
  "env \<Rightarrow> db \<Rightarrow> int \<Rightarrow> json \<Rightarrow> scores \<Rightarrow> json \<Rightarrow> json \<Rightarrow> json \<Rightarrow> py_exception + int \<times> db" where
  "create_analysis e d doc_id sentiment sc themes tone lmetrics =
     (case first_bind_error (sentiment # score_values sc) of
        Some x \<Rightarrow> Inl x
      | None \<Rightarrow>
          Inr (int (length (analyses d)) + 1,
               d\<lparr> analyses := analyses d @
                    [\<lparr> sentiment_score = integer_affinity e (sentiment_score sc),
                       confidence_score = integer_affinity e (confidence_score sc),
                       clarity_score = integer_affinity e (clarity_score sc),
                       readability_score = integer_affinity e (readability_score sc),
                       specificity_score = integer_affinity e (specificity_score sc),
                       document_id = doc_id,
                       overall_sentiment = text_affinity e sentiment,
                       key_themes = json_dumps e themes,
                       emotional_tone = json_dumps e tone,
                       linguistic_metrics = json_dumps e lmetrics \<rparr>] \<rparr>))"

text \<open>
  \<^verbatim>\<open>get_analysis_by_document_id\<close>: an id outside the signed 64-bit range cannot be
  bound. The query has no ORDER BY and \<^verbatim>\<open>fetchone\<close> takes its first row; the table is
  scanned in row order, so that is the first row inserted for the document. The three
  text columns are parsed back.
\<close>

record analysis_out = scores +
  out_id :: int
  out_document_id :: int
  out_overall_sentiment :: json
  out_key_themes :: json
  out_emotional_tone :: json
  out_linguistic_metrics :: json

definition first_analysis_row :: "db \<Rightarrow> int \<Rightarrow> (int \<times> analysis) option" where
  "first_analysis_row d doc_id =
     List.find (\<lambda>row. document_id (snd row) = doc_id)
       (zip (map int [1 ..< Suc (length (analyses d))]) (analyses d))"

definition get_analysis_by_document_id ::
  "env \<Rightarrow> db \<Rightarrow> int \<Rightarrow> py_exception + analysis_out option" where
  "get_analysis_by_document_id e d doc_id =
     (if doc_id < - (2 ^ 63) \<or> 2 ^ 63 \<le> doc_id then Inl OverflowError
      else
        (case first_analysis_row d doc_id of
           None \<Rightarrow> Inr None
         | Some (row_id, a) \<Rightarrow>
             then_do (loads_value e (JStr (key_themes a))) (\<lambda>themes.
             then_do (loads_value e (JStr (emotional_tone a))) (\<lambda>tone.
             then_do (loads_value e (JStr (linguistic_metrics a))) (\<lambda>lmetrics.
               Inr (Some \<lparr> sentiment_score = sentiment_score a,
                           confidence_score = confidence_score a,
                           clarity_score = clarity_score a,
                           readability_score = readability_score a,
                           specificity_score = specificity_score a,
                           out_id = row_id,
                           out_document_id = document_id a,
                           out_overall_sentiment = overall_sentiment a,
                           out_key_themes = themes,
                           out_emotional_tone = tone,
                           out_linguistic_metrics = lmetrics \<rparr>))))))"

text \<open>
  \<^verbatim>\<open>create_section\<close>: every parameter is bound first; the two NOT NULL text columns then
  refuse None.
\<close>

definition create_section ::
  "env \<Rightarrow> db \<Rightarrow> int \<Rightarrow> json \<Rightarrow> json \<Rightarrow> json \<Rightarrow> json \<Rightarrow> scores \<Rightarrow> json \<Rightarrow> json \<Rightarrow> json \<Rightarrow> int
     \<Rightarrow> py_exception + int \<times> db" where
  "create_section e d an_id stitle stype spk otext sc iss revision rationale ord =
     (case first_bind_error ([stitle, stype, spk, otext] @ score_values sc @ [revision, rationale]) of
        Some x \<Rightarrow> Inl x
      | None \<Rightarrow>
          if stitle = JNull \<or> otext = JNull then Inl IntegrityError
          else
            Inr (int (length (sections d)) + 1,
                 d\<lparr> sections := sections d @
                      [\<lparr> sentiment_score = integer_affinity e (sentiment_score sc),
                         confidence_score = integer_affinity e (confidence_score sc),
                         clarity_score = integer_affinity e (clarity_score sc),
                         readability_score = integer_affinity e (readability_score sc),
                         specificity_score = integer_affinity e (specificity_score sc),
                         analysis_id = an_id,
                         section_title = text_affinity e stitle,
                         section_type = text_affinity e stype,
                         section_speaker = text_affinity e spk,
                         original_text = text_affinity e otext,
                         issues = json_dumps e iss,
                         suggested_revision = text_affinity e revision,
                         revision_rationale = text_affinity e rationale,
                         section_order = ord \<rparr>] \<rparr>))"

text \<open>
  \<^verbatim>\<open>get_sections_by_analysis_id\<close>: the rows of the analysis, ORDER BY section_order (a
  stable sort of the rows in row order), each with its issues parsed back.
\<close>

definition select_sections :: "db \<Rightarrow> int \<Rightarrow> section_row list" where
  "select_sections d an_id =
     sort_key section_order (filter (\<lambda>row. analysis_id row = an_id) (sections d))"

definition get_sections_by_analysis_id ::
  "env \<Rightarrow> db \<Rightarrow> int \<Rightarrow> py_exception + (section_row \<times> json) list" where
  "get_sections_by_analysis_id e d an_id =
     collect (\<lambda>row. then_do (loads_value e (JStr (issues row))) (\<lambda>parsed. Inr (row, parsed)))
       (select_sections d an_id)"

definition create_metrics ::
  "env \<Rightarrow> db \<Rightarrow> int \<Rightarrow> int \<Rightarrow> string \<Rightarrow> scores \<Rightarrow> py_exception + int \<times> db" where
  "create_metrics e d doc_id an_id dtype sc =
     (case first_bind_error (score_values sc) of
        Some x \<Rightarrow> Inl x
      | None \<Rightarrow>
          Inr (int (length (metrics_history d)) + 1,
               d\<lparr> metrics_history := metrics_history d @
                    [\<lparr> sentiment_score = integer_affinity e (sentiment_score sc),
                       confidence_score = integer_affinity e (confidence_score sc),
                       clarity_score = integer_affinity e (clarity_score sc),
                       readability_score = integer_affinity e (readability_score sc),
                       specificity_score = integer_affinity e (specificity_score sc),
                       metrics_document_id = doc_id,
                       metrics_analysis_id = an_id,
                       metrics_document_type = dtype \<rparr>] \<rparr>))"

section \<open>Comparisons (database.py, main.py)\<close>

text \<open>
  The document ids of a comparison are a list of Python integers, written to a text
  column with \<^verbatim>\<open>json.dumps\<close> and read back with \<^verbatim>\<open>json.loads\<close>. For such lists the
  codec is written out. \<open>dumps_ids\<close> is the text \<^verbatim>\<open>json.dumps\<close> emits: the decimal
  numbers, separated by a comma and a space, in brackets.
\<close>

definition dumps_ids :: "int list \<Rightarrow> string" where
  "dumps_ids ids = ''['' @ join '', '' (map str_int ids) @ '']''"

text \<open>
  \<open>loads_ids\<close> is \<^verbatim>\<open>json.loads\<close> on the texts that are a JSON array of integer literals:
  whitespace (space, tab, line feed, carriage return) may surround every token, a
  number is an optional minus sign and digits without a leading zero. It is \<open>None\<close> on
  every other text, where the parser raises or returns a value that is no list of
  integers.
\<close>

definition is_digit :: "char \<Rightarrow> bool" where
  "is_digit c = (48 \<le> (of_char c :: nat) \<and> (of_char c :: nat) \<le> 57)"

definition nat_of_string :: "string \<Rightarrow> nat" where
  "nat_of_string s = foldl (\<lambda>acc c. 10 * acc + (of_char c - 48)) 0 s"

definition parse_nat_lit :: "string \<Rightarrow> nat option" where
  "parse_nat_lit s =
     (if s \<noteq> [] \<and> list_all is_digit s \<and> (s = ''0'' \<or> take 1 s \<noteq> ''0'')
      then Some (nat_of_string s) else None)"

definition parse_int_lit :: "string \<Rightarrow> int option" where
  "parse_int_lit s =
     (case s of
        [] \<Rightarrow> None
      | c # rest \<Rightarrow>
          if c = CHR ''-'' then map_option (\<lambda>n. - int n) (parse_nat_lit rest)
          else map_option int (parse_nat_lit s))"

definition json_ws :: "char \<Rightarrow> bool" where
  "json_ws c = (of_char c \<in> {9, 10, 13, 32 :: nat})"

definition json_strip :: "string \<Rightarrow> string" where
  "json_strip s = rev (dropWhile json_ws (rev (dropWhile json_ws s)))"

definition loads_ids :: "string \<Rightarrow> int list option" where
  "loads_ids s =
     (case json_strip s of
        [] \<Rightarrow> None
      | c # rest \<Rightarrow>
          if c \<noteq> CHR ''['' \<or> rest = [] \<or> last rest \<noteq> CHR '']'' then None
          else
            (let inner = butlast rest
             in if list_all json_ws inner then Some []
                else those (map (\<lambda>part. parse_int_lit (json_strip part))
                              (split_on CHR '','' inner))))"

text \<open>The characters of a printed integer: digits and the minus sign.\<close>

definition int_char :: "char \<Rightarrow> bool" where
  "int_char c = (is_digit c \<or> c = CHR ''-'')"

definition create_comparison :: "db \<Rightarrow> string \<Rightarrow> string option \<Rightarrow> int list \<Rightarrow> int \<times> db" where
  "create_comparison d ttl descr ids =
     (let new_id = comparison_seq d + 1
      in (new_id,
          d\<lparr> comparisons := (comparisons d)(new_id \<mapsto>
                \<lparr> comparison_title = ttl, description = descr,
                  document_ids = dumps_ids ids \<rparr>),
             comparison_seq := new_id \<rparr>))"

text \<open>The dictionary that \<^verbatim>\<open>get_comparison\<close> returns, its ids parsed back.\<close>

record comparison_out =
  out_comparison_id :: int
  out_title :: string
  out_description :: "string option"
  out_document_ids :: "int list"

definition get_comparison :: "db \<Rightarrow> int \<Rightarrow> py_exception + comparison_out option" where
  "get_comparison d comp_id =
     (case comparisons d comp_id of
        None \<Rightarrow> Inr None
      | Some row \<Rightarrow>
          (case loads_ids (document_ids row) of
             None \<Rightarrow> Inl JSONDecodeError
           | Some ids \<Rightarrow>
               Inr (Some \<lparr> out_comparison_id = comp_id,
                           out_title = comparison_title row,
                           out_description = description row,
                           out_document_ids = ids \<rparr>)))"

definition delete_comparison :: "db \<Rightarrow> int \<Rightarrow> bool \<times> db" where
  "delete_comparison d comp_id =
     (case comparisons d comp_id of
        None \<Rightarrow> (False, d)
      | Some row \<Rightarrow> (True, d\<lparr> comparisons := (comparisons d)(comp_id := None) \<rparr>))"

text \<open>
  What a request handler answers when it does not return a value: an HTTPException
  with its status code and detail, or an exception that no handler catches. The
  details are the message templates of the source, with the values they interpolate.
\<close>

datatype detail =
    InvalidDocumentType
  | FileTypeNotSupported string
  | OllamaNotAvailable status_error
  | ModelNotFound string "json list"
  | AnalysisFailed py_exception
  | ProcessingFailed py_exception
  | TooFewDocuments
  | DocumentNotFound int

datatype failure =
    HTTPException nat detail
  | Unhandled py_exception

text \<open>
  \<^verbatim>\<open>create_document_comparison\<close>: at least two ids, every one of them an existing
  document (the loop over the ids stops at the first that is not, or whose lookup
  raises), then the insert and the read of the new row.
\<close>

fun verify_documents :: "db \<Rightarrow> int list \<Rightarrow> failure option" where
  "verify_documents d [] = None"
| "verify_documents d (doc_id # rest) =
     (case get_document d doc_id of
        Inl x \<Rightarrow> Some (Unhandled x)
      | Inr None \<Rightarrow> Some (HTTPException 404 (DocumentNotFound doc_id))
      | Inr (Some doc) \<Rightarrow> verify_documents d rest)"

definition create_document_comparison ::
  "db \<Rightarrow> string \<Rightarrow> string option \<Rightarrow> int list \<Rightarrow> (failure + comparison_out option) \<times> db" where
  "create_document_comparison d ttl descr ids =
     (if length ids < 2 then (Inl (HTTPException 400 TooFewDocuments), d)
      else
        (case verify_documents d ids of
           Some failed \<Rightarrow> (Inl failed, d)
         | None \<Rightarrow>
             (let (comp_id, d') = create_comparison d ttl descr ids
              in (case get_comparison d' comp_id of
                    Inl x \<Rightarrow> (Inl (Unhandled x), d')
                  | Inr found \<Rightarrow> (Inr found, d')))))"

section \<open>The upload pipeline (main.py)\<close>

text \<open>An uploaded file: its name as the client sent it and its size in bytes.\<close>

record upload =
  filename :: string
  file_size :: nat

text \<open>The five score entries of a result, read in the order the handlers read them.\<close>

definition read_scores :: "json \<Rightarrow> py_exception + scores" where
  "read_scores r =
     then_do (py_getitem r ''sentiment_score'') (\<lambda>s1.
     then_do (py_getitem r ''confidence_score'') (\<lambda>s2.
     then_do (py_getitem r ''clarity_score'') (\<lambda>s3.
     then_do (py_getitem r ''readability_score'') (\<lambda>s4.
     then_do (py_getitem r ''specificity_score'') (\<lambda>s5.
       Inr \<lparr> sentiment_score = s1, confidence_score = s2, clarity_score = s3,
             readability_score = s4, specificity_score = s5 \<rparr>)))))"

text \<open>
  The call \<^verbatim>\<open>create_analysis(db, document_id=doc_id, ...)\<close>: its arguments are nine
  entries of the analysis result, evaluated in order before the insert.
\<close>

definition store_analysis :: "env \<Rightarrow> db \<Rightarrow> int \<Rightarrow> json \<Rightarrow> py_exception + int \<times> db" where
  "store_analysis e d doc_id r =
     then_do (py_getitem r ''overall_sentiment'') (\<lambda>sentiment.
     then_do (read_scores r) (\<lambda>sc.
     then_do (py_getitem r ''key_themes'') (\<lambda>themes.
     then_do (py_getitem r ''emotional_tone'') (\<lambda>tone.
     then_do (py_getitem r ''linguistic_metrics'') (\<lambda>lmetrics.
       create_analysis e d doc_id sentiment sc themes tone lmetrics)))))"

text \<open>The call \<^verbatim>\<open>create_section(db, analysis_id=analysis_id, ..., order=idx)\<close>.\<close>

definition store_section :: "env \<Rightarrow> db \<Rightarrow> int \<Rightarrow> json \<Rightarrow> nat \<Rightarrow> py_exception + int \<times> db" where
  "store_section e d an_id sec idx =
     then_do (py_getitem sec ''section_title'') (\<lambda>stitle.
     then_do (py_get sec ''section_type'' JNull) (\<lambda>stype.
     then_do (py_get sec ''speaker'' JNull) (\<lambda>spk.
     then_do (py_getitem sec ''original_text'') (\<lambda>otext.
     then_do (read_scores sec) (\<lambda>sc.
     then_do (py_getitem sec ''issues'') (\<lambda>iss.
     then_do (py_getitem sec ''suggested_revision'') (\<lambda>revision.
     then_do (py_getitem sec ''revision_rationale'') (\<lambda>rationale.
       create_section e d an_id stitle stype spk otext sc iss revision rationale (int idx)))))))))"

text \<open>
  The loop \<^verbatim>\<open>for idx, section in enumerate(sections_result)\<close>: every insert is committed
  on its own, so the sections stored before an exception stay.
\<close>

fun save_sections :: "env \<Rightarrow> db \<Rightarrow> int \<Rightarrow> nat \<Rightarrow> json list \<Rightarrow> py_exception option \<times> db" where
  "save_sections e d an_id idx [] = (None, d)"
| "save_sections e d an_id idx (sec # secs) =
     (case store_section e d an_id sec idx of
        Inl x \<Rightarrow> (Some x, d)
      | Inr (sec_id, d') \<Rightarrow> save_sections e d' an_id (Suc idx) secs)"

text \<open>
  The statements from the document-level analysis to the final status write. They are
  the same in \<^verbatim>\<open>upload_document\<close> and \<^verbatim>\<open>upload_audio_document\<close> and are modelled once.
  The result is the exception that left the \<^verbatim>\<open>try\<close> block, if any, and the database as
  the statements committed it.
\<close>

definition analyze_and_store ::
  "env \<Rightarrow> db \<Rightarrow> int \<Rightarrow> string \<Rightarrow> string \<Rightarrow> string \<Rightarrow> py_exception option \<times> db" where
  "analyze_and_store e d doc_id dtype model text_content =
     (case analyze_document_content e text_content model of
        Inl x \<Rightarrow> (Some x, d)
      | Inr analysis_result \<Rightarrow>
          (case store_analysis e d doc_id analysis_result of
             Inl x \<Rightarrow> (Some x, d)
           | Inr (an_id, d2) \<Rightarrow>
               (case then_do (analyze_sections_content e text_content model) py_iter of
                  Inl x \<Rightarrow> (Some x, d2)
                | Inr secs \<Rightarrow>
                    (case save_sections e d2 an_id 0 secs of
                       (Some x, d3) \<Rightarrow> (Some x, d3)
                     | (None, d3) \<Rightarrow>
                         (case then_do (read_scores analysis_result)
                                 (create_metrics e d3 doc_id an_id dtype) of
                            Inl x \<Rightarrow> (Some x, d3)
                          | Inr (m_id, d4) \<Rightarrow>
                              (None, update_document_status d4 doc_id ''completed''))))))"

definition valid_types :: "string list" where
  "valid_types = [''press_release'', ''earnings_call'', ''corporate_release'', ''other'']"

definition allowed_extensions :: "string list" where
  "allowed_extensions = [''.pdf'', ''.txt'', ''.doc'', ''.docx'']"

text \<open>The \<^verbatim>\<open>try\<close> block of \<^verbatim>\<open>upload_document\<close>.\<close>

definition process_document ::
  "env \<Rightarrow> db \<Rightarrow> int \<Rightarrow> string \<Rightarrow> string \<Rightarrow> string \<Rightarrow> py_exception option \<times> db" where
  "process_document e d doc_id dtype model path =
     (case extract_text_from_file e path of
        Inl x \<Rightarrow> (Some x, d)
      | Inr text_content \<Rightarrow>
          analyze_and_store e (update_document_status d doc_id ''processing'')
            doc_id dtype model text_content)"

text \<open>
  \<^verbatim>\<open>upload_document\<close>: the four checks, the save of the file, the Document row, the
  \<^verbatim>\<open>try\<close> block and its handler. The "model not found" detail joins the installed names
  with \<^verbatim>\<open>', '.join\<close>, which raises when one of them is not text.
\<close>

definition upload_document ::
  "env \<Rightarrow> db \<Rightarrow> string \<Rightarrow> string \<Rightarrow> string \<Rightarrow> upload \<Rightarrow> (failure + document option) \<times> db" where
  "upload_document e d ttl dtype model file =
     (if dtype \<notin> set valid_types then (Inl (HTTPException 400 InvalidDocumentType), d)
      else
        (let file_ext = lower (splitext_ext (filename file))
         in if file_ext \<notin> set allowed_extensions
            then (Inl (HTTPException 400 (FileTypeNotSupported file_ext)), d)
            else
              (case check_ollama_status e of
                 Unavailable err \<Rightarrow> (Inl (HTTPException 503 (OllamaNotAvailable err)), d)
               | Available installed \<Rightarrow>
                   (case get_available_models e of
                      Inl x \<Rightarrow> (Inl (Unhandled x), d)
                    | Inr available_models \<Rightarrow>
                        if JStr model \<notin> set available_models
                        then (if list_all is_str available_models
                              then (Inl (HTTPException 400 (ModelNotFound model available_models)), d)
                              else (Inl (Unhandled TypeError), d))
                        else
                          (let path = ''data/uploads/'' @ now_stamp e @ ''_'' @ filename file
                           in if \<not> writable e path then (Inl (Unhandled OSError), d)
                              else
                                (let (doc_id, d1) = create_document d ttl dtype path
                                 in case process_document e d1 doc_id dtype model path of
                                      (Some x, d2) \<Rightarrow>
                                        (Inl (HTTPException 500 (AnalysisFailed x)),
                                         update_document_status d2 doc_id ''failed'')
                                    | (None, d2) \<Rightarrow>
                                        (case get_document d2 doc_id of
                                           Inl x \<Rightarrow> (Inl (Unhandled x), d2)
                                         | Inr doc \<Rightarrow> (Inr doc, d2))))))))"

section \<open>The audio pipeline (audio_processor.py, main_audio.py)\<close>

definition audio_extensions :: "string list" where
  "audio_extensions = [''.mp3'', ''.wav'', ''.m4a'', ''.ogg'', ''.flac'', ''.webm'', ''.mp4'']"

text \<open>
  \<^verbatim>\<open>validate_audio_file\<close> for a file that exists, given its size in bytes: at most 100
  megabytes and an audio extension.
\<close>

definition validate_audio_file :: "nat \<Rightarrow> string \<Rightarrow> bool" where
  "validate_audio_file size_bytes audio_path =
     (\<not> size_bytes > 100 * (1024 * 1024)
      \<and> lower (path_suffix audio_path) \<in> set audio_extensions)"

text \<open>\<^verbatim>\<open>TRANSCRIPTION_PRESETS\<close>: the backend and the model size of each preset.\<close>

definition transcription_presets :: "(string \<times> string \<times> string) list" where
  "transcription_presets =
     [(''fast'', ''whisper-local'', ''tiny''),
      (''balanced'', ''whisper-local'', ''base''),
      (''accurate'', ''whisper-local'', ''small''),
      (''high_quality'', ''whisper-local'', ''medium''),
      (''api'', ''whisper-api'', ''whisper-1'')]"

definition preset_config :: "string \<Rightarrow> string \<times> string" where
  "preset_config preset =
     (case map_of transcription_presets preset of
        Some cfg \<Rightarrow> cfg
      | None \<Rightarrow> (''whisper-local'', ''base''))"

text \<open>The constructor of \<^verbatim>\<open>AudioTranscriber\<close>: the backend it settles on.\<close>

definition transcriber_backend :: "env \<Rightarrow> string \<Rightarrow> py_exception + string" where
  "transcriber_backend e backend =
     (if backend = ''whisper-local'' \<and> \<not> whisper_available e then Inl ImportError
      else if backend = ''whisper-api'' \<and> \<not> openai_available e then Inl ImportError
      else if backend = ''auto'' then
        (if whisper_available e then Inr ''whisper-local''
         else if openai_available e then Inr ''whisper-api''
         else Inl ImportError)
      else Inr backend)"

text \<open>
  The two backends of \<^verbatim>\<open>AudioTranscriber\<close>, with the diagnostics they print: the local
  one before it loads the speech model and before it transcribes, the remote one after
  it has made its client.
\<close>

definition transcribe_local ::
  "env \<Rightarrow> string \<Rightarrow> string \<Rightarrow> string \<Rightarrow> py_exception + transcript" where
  "transcribe_local e audio_path language model_size =
     then_do (py_print e (LoadingWhisperModel model_size)) (\<lambda>u.
       case whisper_load_model e model_size of
         Some x \<Rightarrow> Inl x
       | None \<Rightarrow>
           then_do (py_print e (TranscribingAudio audio_path)) (\<lambda>u.
             whisper_local e audio_path language model_size))"

definition transcribe_api :: "env \<Rightarrow> string \<Rightarrow> string \<Rightarrow> py_exception + transcript" where
  "transcribe_api e audio_path language =
     (case openai_client e of
        Some x \<Rightarrow> Inl x
      | None \<Rightarrow>
          then_do (py_print e (TranscribingViaApi audio_path)) (\<lambda>u.
            whisper_api e audio_path language))"

definition transcribe ::
  "env \<Rightarrow> string \<Rightarrow> string \<Rightarrow> string \<Rightarrow> string \<Rightarrow> py_exception + transcript" where
  "transcribe e backend audio_path language model_size =
     (if backend = ''whisper-local'' then transcribe_local e audio_path language model_size
      else if backend = ''whisper-api'' then transcribe_api e audio_path language
      else Inl ValueError)"

text \<open>The result of \<^verbatim>\<open>transcribe_audio_file\<close>.\<close>

record transcription =
  result_text :: string
  formatted_text :: string
  result_language :: string
  result_segments :: "segment list"
  duration :: real

definition transcribe_audio_file ::
  "env \<Rightarrow> string \<Rightarrow> nat \<Rightarrow> string \<Rightarrow> string \<Rightarrow> string \<Rightarrow> bool \<Rightarrow> py_exception + transcription" where
  "transcribe_audio_file e audio_path size_bytes backend language model_size detect =
     (if \<not> validate_audio_file size_bytes audio_path then Inl ValueError
      else
        then_do (audio_duration e audio_path) (\<lambda>secs.
        then_do (py_print e (AudioDuration secs)) (\<lambda>u.
        then_do (transcriber_backend e backend) (\<lambda>chosen.
        then_do (transcribe e chosen audio_path language model_size) (\<lambda>raw.
          if detect \<and> tr_segments raw \<noteq> [] then
            (let labelled = detect_speakers_simple (float_sub e) (tr_segments raw)
             in Inr \<lparr> result_text = tr_text raw,
                      formatted_text = format_transcript_with_speakers (py_isspace e) labelled,
                      result_language = tr_language raw,
                      result_segments = labelled,
                      duration = secs \<rparr>)
          else
            Inr \<lparr> result_text = tr_text raw,
                  formatted_text = tr_text raw,
                  result_language = tr_language raw,
                  result_segments = tr_segments raw,
                  duration = secs \<rparr>)))))"

text \<open>The \<^verbatim>\<open>try\<close> block of \<^verbatim>\<open>upload_audio_document\<close>.\<close>

definition process_audio ::
  "env \<Rightarrow> db \<Rightarrow> int \<Rightarrow> string \<Rightarrow> string \<Rightarrow> string \<Rightarrow> string \<Rightarrow> bool \<Rightarrow> string \<Rightarrow> nat
     \<Rightarrow> py_exception option \<times> db" where
  "process_audio e d doc_id dtype analysis_model preset language detect path size_bytes =
     (let d1 = update_document_status d doc_id ''transcribing'';
          (backend, model_size) = preset_config preset
      in case transcribe_audio_file e path size_bytes backend language model_size detect of
           Inl x \<Rightarrow> (Some x, d1)
         | Inr result \<Rightarrow>
             if \<not> writable e (path @ ''.transcript.txt'') then (Some OSError, d1)
             else
               analyze_and_store e (update_document_status d1 doc_id ''analyzing'')
                 doc_id dtype analysis_model (formatted_text result))"

text \<open>
  \<^verbatim>\<open>upload_audio_document\<close>. On success the handler answers with a summary of the
  transcription and the scores; the model keeps the id of the document.
\<close>

definition upload_audio_document ::
  "env \<Rightarrow> db \<Rightarrow> string \<Rightarrow> string \<Rightarrow> string \<Rightarrow> string \<Rightarrow> string \<Rightarrow> bool \<Rightarrow> upload
     \<Rightarrow> (failure + int) \<times> db" where
  "upload_audio_document e d ttl dtype analysis_model preset language detect file =
     (if dtype \<notin> set valid_types then (Inl (HTTPException 400 InvalidDocumentType), d)
      else
        (let file_ext = lower (splitext_ext (filename file))
         in if file_ext \<notin> set audio_extensions
            then (Inl (HTTPException 400 (FileTypeNotSupported file_ext)), d)
            else
              (let path = ''data/uploads/'' @ now_stamp e @ ''_'' @ filename file
               in if \<not> writable e path then (Inl (Unhandled OSError), d)
                  else
                    (let (doc_id, d1) = create_document d ttl dtype path
                     in case process_audio e d1 doc_id dtype analysis_model preset language
                               detect path (file_size file) of
                          (Some x, d2) \<Rightarrow>
                            (Inl (HTTPException 500 (ProcessingFailed x)),
                             update_document_status d2 doc_id ''failed'')
                        | (None, d2) \<Rightarrow> (Inr doc_id, d2)))))"

section \<open>Vocabulary of the properties\<close>

text \<open>
  The path under which a handler saves an upload, and the conjunction of the checks of
  \<^verbatim>\<open>upload_document\<close> (respectively \<^verbatim>\<open>upload_audio_document\<close>) that precede the
  Document row, the save of the file included.
\<close>

definition saved_path :: "env \<Rightarrow> upload \<Rightarrow> string" where
  "saved_path e file = ''data/uploads/'' @ now_stamp e @ ''_'' @ filename file"

definition upload_accepted :: "env \<Rightarrow> string \<Rightarrow> string \<Rightarrow> upload \<Rightarrow> bool" where
  "upload_accepted e dtype model file =
     (dtype \<in> set valid_types
      \<and> lower (splitext_ext (filename file)) \<in> set allowed_extensions
      \<and> (case check_ollama_status e of Available installed \<Rightarrow> True | Unavailable err \<Rightarrow> False)
      \<and> (case get_available_models e of
            Inl x \<Rightarrow> False
          | Inr available_models \<Rightarrow> JStr model \<in> set available_models)
      \<and> writable e (saved_path e file))"

definition audio_accepted :: "env \<Rightarrow> string \<Rightarrow> upload \<Rightarrow> bool" where
  "audio_accepted e dtype file =
     (dtype \<in> set valid_types
      \<and> lower (splitext_ext (filename file)) \<in> set audio_extensions
      \<and> writable e (saved_path e file))"

text \<open>
  The status values and the transitions that the specification allows: forward along
  uploading, then transcribing and analyzing or else processing, then completed; and
  to failed from each of the four states that are not terminal.
\<close>

definition terminal :: "string \<Rightarrow> bool" where
  "terminal st = (st = ''completed'' \<or> st = ''failed'')"

definition status_step :: "string \<Rightarrow> string \<Rightarrow> bool" where
  "status_step a b =
     ((a = ''uploading'' \<and> (b = ''transcribing'' \<or> b = ''processing''))
      \<or> (a = ''transcribing'' \<and> b = ''analyzing'')
      \<or> (a = ''processing'' \<and> b = ''completed'')
      \<or> (a = ''analyzing'' \<and> b = ''completed'')
      \<or> (a \<in> set [''uploading'', ''transcribing'', ''processing'', ''analyzing'']
          \<and> b = ''failed''))"

fun forward_chain :: "string list \<Rightarrow> bool" where
  "forward_chain [] = True"
| "forward_chain [a] = True"
| "forward_chain (a # b # rest) = (status_step a b \<and> forward_chain (b # rest))"

text \<open>The sequences of status writes that one text upload, or one audio upload, makes.\<close>

definition text_traces :: "string list list" where
  "text_traces =
     [[],
      [''uploading'', ''failed''],
      [''uploading'', ''processing'', ''failed''],
      [''uploading'', ''processing'', ''completed'']]"

definition audio_traces :: "string list list" where
  "audio_traces =
     [[],
      [''uploading'', ''transcribing'', ''failed''],
      [''uploading'', ''transcribing'', ''analyzing'', ''failed''],
      [''uploading'', ''transcribing'', ''analyzing'', ''completed'']]"

text \<open>
  The status column after the writes \<open>w\<close> of one run to the row at position \<open>n\<close>: it
  holds the last of them.
\<close>

definition written :: "string list \<Rightarrow> nat \<Rightarrow> document list \<Rightarrow> document list" where
  "written w n docs = (if w = [] then docs else docs[n := (docs ! n)\<lparr>status := last w\<rparr>])"

text \<open>A score in the range the prompt asks for: an integer from 0 to 100.\<close>

fun score_in_range :: "json \<Rightarrow> bool" where
  "score_in_range (JInt n) = (0 \<le> n \<and> n \<le> 100)"
| "score_in_range _ = False"

text \<open>
  The databases that the request handlers with a write produce from the empty one. The
  environment may differ from request to request.
\<close>

inductive reachable :: "db \<Rightarrow> bool" where
  initial: "reachable init_db"
| document_upload:
    "reachable d \<Longrightarrow> reachable (snd (upload_document e d ttl dtype model file))"
| audio_upload:
    "reachable d \<Longrightarrow>
     reachable (snd (upload_audio_document e d ttl dtype model preset language detect file))"
| comparison_created:
    "reachable d \<Longrightarrow> reachable (snd (create_document_comparison d ttl descr ids))"
| comparison_deleted:
    "reachable d \<Longrightarrow> reachable (snd (delete_comparison d comp_id))"

text \<open>
  The section rows of an analysis, in row order; and the condition on the sections
  table that every handler preserves: each row belongs to an analysis that exists, and
  the rows of each analysis carry the orders 0, 1, 2, ... in row order.
\<close>

definition sections_of :: "db \<Rightarrow> int \<Rightarrow> section_row list" where
  "sections_of d an_id = filter (\<lambda>row. analysis_id row = an_id) (sections d)"

definition sections_ok :: "db \<Rightarrow> bool" where
  "sections_ok d =
     (list_all (\<lambda>row. analysis_id row \<le> int (length (analyses d))) (sections d)
      \<and> (\<forall>an_id. map section_order (sections_of d an_id)
                   = map int [0 ..< length (sections_of d an_id)]))"

text \<open>
  What one upload does to the analyses and sections tables: nothing, or one new
  analysis together with sections that carry its id and the orders 0, 1, 2, ...
\<close>

definition sections_step :: "db \<Rightarrow> db \<Rightarrow> bool" where
  "sections_step d d' =
     ((analyses d' = analyses d \<and> sections d' = sections d)
      \<or> (\<exists>row new. analyses d' = analyses d @ [row]
            \<and> sections d' = sections d @ new
            \<and> map analysis_id new = replicate (length new) (int (length (analyses d)) + 1)
            \<and> map section_order new = map int [0 ..< length new]))"

text \<open>
  An analysis result that \<open>store_analysis\<close> accepts: it has the nine entries and the
  values of the six that are bound directly can be bound. The database and the document
  id play no part in that.
\<close>

definition analysis_storable :: "env \<Rightarrow> json \<Rightarrow> bool" where
  "analysis_storable e r =
     (case store_analysis e init_db 1 r of Inl x \<Rightarrow> False | Inr stored \<Rightarrow> True)"

section \<open>Environments used as examples\<close>

text \<open>
  A parser that knows a handful of texts, enough for the examples below; every other
  text is rejected, as \<^verbatim>\<open>json.loads\<close> rejects text that is not JSON.
\<close>

definition example_loads :: "string \<Rightarrow> json option" where
  "example_loads s =
     (if s = ''{}'' then Some (JObj [])
      else if s = ''[]'' then Some (JArr [])
      else if s = ''null'' then Some JNull
      else if s = ''wrapped-not-json'' then Some (JObj [(''response'', JStr ''I cannot answer'')])
      else if s = ''wrapped-unprintable'' then
        Some (JObj [(''response'', JStr ''<U+D83D> is not JSON'')])
      else if s = ''wrapped-empty-object'' then Some (JObj [(''response'', JStr ''{}'')])
      else if s = ''wrapped-empty-array'' then Some (JObj [(''response'', JStr ''[]'')])
      else if s = ''wrapped-analysis-150'' then Some (JObj [(''response'', JStr ''analysis-150'')])
      else if s = ''analysis-150'' then
        Some (JObj [
          (''overall_sentiment'', JStr ''positive''),
          (''sentiment_score'', JInt 150),
          (''confidence_score'', JInt 80),
          (''clarity_score'', JInt 80),
          (''readability_score'', JInt 80),
          (''specificity_score'', JInt 80),
          (''key_themes'', JArr []),
          (''emotional_tone'', JObj []),
          (''linguistic_metrics'', JObj [])])
      else if s = ''installed-models'' then
        Some (JObj [(''models'', JArr [JObj [(''name'', JStr ''llama3.2'')]])])
      else None)"

text \<open>
  A quiet world to vary: every request to the backend is refused and no library is
  installed; every path can be written and every diagnostic printed. The times of the
  examples are multiples of one half, whose differences are floats, so \<open>float_sub\<close> is
  the subtraction of the reals on them.
\<close>

definition env_unreachable :: env where
  "env_unreachable =
     \<lparr> json_loads = example_loads,
       json_dumps = (\<lambda>v. ''null''),
       tags_for_status = RequestFailed ConnectionError,
       tags_for_models = RequestFailed ConnectionError,
       post_generate = (\<lambda>model p. RequestFailed ConnectionError),
       print_error = (\<lambda>msg. None),
       py_isspace = (\<lambda>c. c = CHR '' ''),
       float_sub = (\<lambda>a b. a - b),
       numeric_text = (\<lambda>s. None),
       float_text = (\<lambda>x. []),
       now_stamp = ''20240101_120000'',
       writable = (\<lambda>path. True),
       read_text = (\<lambda>path. Inr ''Revenue grew.''),
       pdf_available = False,
       pdf_pages = (\<lambda>path. Inl ImportError),
       docx_available = False,
       docx_paragraphs = (\<lambda>path. Inl ImportError),
       whisper_available = False,
       openai_available = False,
       audio_duration = (\<lambda>path. Inr 0),
       whisper_load_model = (\<lambda>model_size. None),
       openai_client = None,
       whisper_local = (\<lambda>path language model_size. Inl ImportError),
       whisper_api = (\<lambda>path language. Inl ImportError) \<rparr>"

text \<open>A backend that answers every generate request with prose instead of JSON.\<close>

definition env_prose :: env where
  "env_prose =
     env_unreachable
       \<lparr> tags_for_status := HttpResponse 200 ''{}'',
         tags_for_models := HttpResponse 200 ''{}'',
         post_generate := (\<lambda>model p. HttpResponse 200 ''wrapped-not-json'') \<rparr>"

text \<open>
  A backend whose reply to every generate request is the JSON text
  \<^verbatim>\<open>{"response": "\ud83d is not JSON"}\<close>: prose that starts with a lone surrogate, written
  \<^verbatim>\<open><U+D83D>\<close> here. The standard output cannot encode that character.
\<close>

definition env_unprintable :: env where
  "env_unprintable =
     env_unreachable
       \<lparr> post_generate := (\<lambda>model p. HttpResponse 200 ''wrapped-unprintable''),
         print_error := (\<lambda>msg.
           case msg of
             ResponseWas s \<Rightarrow> if s = ''<U+D83D> is not JSON'' then Some UnicodeEncodeError else None
           | _ \<Rightarrow> None) \<rparr>"

text \<open>Segments of a call: two without a pause between them, a third after a pause.\<close>

definition seg_a :: segment where
  "seg_a = \<lparr> seg_start = 0, seg_end = 5, seg_text = ''Good morning.'', speaker = None \<rparr>"

definition seg_b :: segment where
  "seg_b = \<lparr> seg_start = 5, seg_end = 10, seg_text = ''Revenue grew.'', speaker = None \<rparr>"

definition seg_c :: segment where
  "seg_c = \<lparr> seg_start = 13, seg_end = 15, seg_text = ''Thank you.'', speaker = None \<rparr>"
text \<open>Two segments of a recording that starts with three seconds of silence.\<close>

definition seg_late_a :: segment where
  "seg_late_a = \<lparr> seg_start = 3, seg_end = 5, seg_text = ''Good morning.'', speaker = None \<rparr>"

definition seg_late_b :: segment where
  "seg_late_b = \<lparr> seg_start = 11 / 2, seg_end = 8, seg_text = ''Revenue grew.'', speaker = None \<rparr>"

text \<open>A database that holds two documents, with ids 1 and 2.\<close>

definition two_documents :: db where
  "two_documents =
     snd (create_document
            (snd (create_document init_db ''Q1 results'' ''press_release'' ''data/uploads/a.txt''))
            ''Q1 call'' ''earnings_call'' ''data/uploads/b.txt'')"

text \<open>
  A database in which the first analysis belongs to document 2 and document 1 has two
  analyses: the earlier one scores 10 throughout, the one created after it scores 90.
\<close>

definition scores_of :: "int \<Rightarrow> scores" where
  "scores_of n =
     \<lparr> sentiment_score = JInt n, confidence_score = JInt n, clarity_score = JInt n,
       readability_score = JInt n, specificity_score = JInt n \<rparr>"

definition analysis_row :: "int \<Rightarrow> int \<Rightarrow> analysis" where
  "analysis_row doc_id n =
     \<lparr> sentiment_score = JInt n, confidence_score = JInt n, clarity_score = JInt n,
       readability_score = JInt n, specificity_score = JInt n,
       document_id = doc_id, overall_sentiment = JStr ''neutral'',
       key_themes = ''[]'', emotional_tone = ''{}'', linguistic_metrics = ''{}'' \<rparr>"

definition three_analyses :: db where
  "three_analyses =
     two_documents \<lparr> analyses := [analysis_row 2 50, analysis_row 1 10, analysis_row 1 90] \<rparr>"

text \<open>
  A backend that is up, has the model llama3.2 installed and answers every generate
  request with prose.
\<close>

definition env_ready :: env where
  "env_ready =
     env_unreachable
       \<lparr> tags_for_status := HttpResponse 200 ''installed-models'',
         tags_for_models := HttpResponse 200 ''installed-models'',
         post_generate := (\<lambda>model p. HttpResponse 200 ''wrapped-not-json'') \<rparr>"

text \<open>The same backend, when the saved file cannot be read.\<close>

definition env_no_text :: env where
  "env_no_text = env_ready \<lparr> read_text := (\<lambda>path. Inl OSError) \<rparr>"

text \<open>A backend that answers every generate request with the empty JSON object.\<close>

definition env_empty_object :: env where
  "env_empty_object =
     env_ready \<lparr> post_generate := (\<lambda>model p. HttpResponse 200 ''wrapped-empty-object'') \<rparr>"

text \<open>
  A backend that answers the document prompt with a complete analysis whose sentiment
  score is 150, and the sections prompt with the empty JSON object.
\<close>

definition env_score_150 :: env where
  "env_score_150 =
     env_ready
       \<lparr> post_generate := (\<lambda>model p.
           case p of
             DocumentPrompt t \<Rightarrow> HttpResponse 200 ''wrapped-analysis-150''
           | SectionsPrompt t \<Rightarrow> HttpResponse 200 ''wrapped-empty-object'') \<rparr>"


text \<open>
  A machine with the local speech model installed, which transcribes every file to
  two segments; the model backend is unreachable, or answers with the empty object.
\<close>

definition env_whisper :: env where
  "env_whisper =
     env_unreachable
       \<lparr> whisper_available := True,
         whisper_local := (\<lambda>path language model_size.
           Inr \<lparr> tr_text = ''Good morning. Revenue grew.'', tr_language = ''en'',
                 tr_segments = [seg_a, seg_b] \<rparr>) \<rparr>"

definition env_whisper_empty_object :: env where
  "env_whisper_empty_object =
     env_whisper \<lparr> post_generate := (\<lambda>model p. HttpResponse 200 ''wrapped-empty-object'') \<rparr>"

text \<open>Uploads: a small text file, a text file of 11 megabytes, an audio file.\<close>

definition small_txt :: upload where
  "small_txt = \<lparr> filename = ''q1.txt'', file_size = 50 \<rparr>"

definition big_txt :: upload where
  "big_txt = \<lparr> filename = ''q1.txt'', file_size = 11 * 1024 * 1024 \<rparr>"

definition call_mp3 :: upload where
  "call_mp3 = \<lparr> filename = ''call.mp3'', file_size = 1000 \<rparr>"

section \<open>Properties of the annotation client\<close>

lemma then_do_simps [simp]: "then_do (Inl x) f = Inl x" "then_do (Inr v) f = f v"
  by (simp_all add: then_do_def)

lemma py_print_quiet: "print_error e msg = None \<Longrightarrow> py_print e msg = Inr ()"
  by (simp add: py_print_def)

text \<open>
  When every diagnostic of the handlers can be printed, a backend call that raises or
  returns text that is not JSON makes each operation return its default.
\<close>

lemma analyze_document_default:
  assumes "call_fails_or_not_json e model (DocumentPrompt (take 8000 doc))"
    and "\<And>msg. print_error e msg = None"
  shows "analyze_document_content e doc model = Inr get_default_analysis"
  using assms(1)
  by (auto simp: call_fails_or_not_json_def analyze_document_content_def py_print_quiet assms(2)
      split: sum.splits json.splits option.splits)

lemma analyze_sections_default:
  assumes "call_fails_or_not_json e model (SectionsPrompt (take 8000 doc))"
    and "\<And>msg. print_error e msg = None"
  shows "analyze_sections_content e doc model = Inr (get_default_sections doc)"
  using assms(1)
  by (auto simp: call_fails_or_not_json_def analyze_sections_content_def py_print_quiet assms(2)
      split: sum.splits json.splits option.splits)

lemma default_analysis_fields:
  "py_getitem get_default_analysis ''overall_sentiment'' = Inr (JStr ''neutral'')"
  "py_getitem get_default_analysis ''sentiment_score'' = Inr (JInt 50)"
  "py_getitem get_default_analysis ''confidence_score'' = Inr (JInt 50)"
  "py_getitem get_default_analysis ''clarity_score'' = Inr (JInt 50)"
  "py_getitem get_default_analysis ''readability_score'' = Inr (JInt 50)"
  "py_getitem get_default_analysis ''specificity_score'' = Inr (JInt 50)"
  "py_getitem get_default_analysis ''key_themes'' = Inr (JArr [JStr ''Analysis unavailable''])"
  by (simp_all add: get_default_analysis_def)

lemma default_sections_fields:
  "\<exists>sec. get_default_sections doc = JArr [sec] \<and>
     py_getitem sec ''section_title'' = Inr (JStr ''Full Document'') \<and>
     py_getitem sec ''original_text'' = Inr (JStr (take 500 doc)) \<and>
     py_getitem sec ''issues'' =
       Inr (JArr [JStr ''Analysis unavailable - check Ollama connection''])"
  by (simp add: get_default_sections_def)

lemma unreachable_call_fails: "call_fails_or_not_json env_unreachable model p"
  by (simp add: call_fails_or_not_json_def call_ollama_def env_unreachable_def)

lemma prose_call_not_json: "call_fails_or_not_json env_prose model p"
  by (simp add: call_fails_or_not_json_def call_ollama_def env_prose_def env_unreachable_def
      example_loads_def)

lemma unprintable_call:
  "call_ollama env_unprintable model p = Inr (JStr ''<U+D83D> is not JSON'')"
  "json_loads env_unprintable ''<U+D83D> is not JSON'' = None"
  "print_error env_unprintable (ResponseWas ''<U+D83D> is not JSON'') = Some UnicodeEncodeError"
  "print_error env_unprintable JsonParsingError = None"
  "print_error env_unprintable JsonParsingErrorInSections = None"
  by (simp_all add: call_ollama_def env_unprintable_def env_unreachable_def example_loads_def)

text \<open>
  Claim C1 fails in the code. The backend answers a generate request with status 200
  and the body \<^verbatim>\<open>{"response": "\ud83d is not JSON"}\<close>: text that is not JSON. Each
  operation enters its handler of JSONDecodeError, whose second \<^verbatim>\<open>print\<close> writes the
  first 500 characters of the reply; the output stream cannot encode the lone
  surrogate, and the UnicodeEncodeError of that \<^verbatim>\<open>print\<close> leaves the operation instead
  of the default.
\<close>

theorem unprintable_reply_raises:
  "call_fails_or_not_json env_unprintable ''llama3.2'' (DocumentPrompt (take 8000 ''Revenue grew.''))
   \<and> call_fails_or_not_json env_unprintable ''llama3.2'' (SectionsPrompt (take 8000 ''Revenue grew.''))
   \<and> analyze_document_content env_unprintable ''Revenue grew.'' ''llama3.2''
       = Inl UnicodeEncodeError
   \<and> analyze_sections_content env_unprintable ''Revenue grew.'' ''llama3.2''
       = Inl UnicodeEncodeError
   \<and> analyze_document_content env_unprintable ''Revenue grew.'' ''llama3.2''
       \<noteq> Inr get_default_analysis
   \<and> analyze_sections_content env_unprintable ''Revenue grew.'' ''llama3.2''
       \<noteq> Inr (get_default_sections ''Revenue grew.'')"
  by (simp add: call_fails_or_not_json_def analyze_document_content_def
      analyze_sections_content_def unprintable_call py_print_def)

section \<open>Properties of speaker detection\<close>

lemma str_nat_small: "n < 10 \<Longrightarrow> str_nat n = [digit_char n]"
  by (subst str_nat.simps) simp

lemma str_nat_large: "\<not> n < 10 \<Longrightarrow> str_nat n = str_nat (n div 10) @ [digit_char (n mod 10)]"
  by (subst str_nat.simps) simp

lemma digit_val: "d < 10 \<Longrightarrow> of_char (digit_char d) - 48 = (d::nat)"
  by (simp add: digit_char_def)

lemma nat_of_string_snoc: "nat_of_string (s @ [c]) = 10 * nat_of_string s + (of_char c - 48)"
  by (simp add: nat_of_string_def)

lemma nat_of_str_nat: "nat_of_string (str_nat n) = n"
proof (induction n rule: str_nat.induct)
  case (1 n)
  show ?case
  proof (cases "n < 10")
    case True
    then show ?thesis by (simp add: str_nat_small nat_of_string_def digit_val)
  next
    case False
    with 1 show ?thesis by (simp add: str_nat_large nat_of_string_snoc digit_val)
  qed
qed

lemma str_nat_inj: "str_nat m = str_nat n \<Longrightarrow> m = n"
  by (metis nat_of_str_nat)

lemma speaker_label_inj: "speaker_label m = speaker_label n \<Longrightarrow> m = n"
  by (simp add: speaker_label_def str_nat_inj)

lemma map_speaker_label_speakers:
  "map speaker (label_speakers sub k l segs)
     = map (\<lambda>i. Some (speaker_label i)) (speaker_ids sub k l segs)"
  by (induction segs arbitrary: k l) (simp_all add: Let_def)

lemma length_speaker_ids: "length (speaker_ids sub k l segs) = length segs"
  by (induction segs arbitrary: k l) (simp_all add: Let_def)

lemma length_label_speakers: "length (label_speakers sub k l segs) = length segs"
  by (induction segs arbitrary: k l) (simp_all add: Let_def)

lemma speaker_ids_step:
  "Suc i < length segs \<Longrightarrow>
   speaker_ids sub k l segs ! Suc i =
     (if sub (seg_start (segs ! Suc i)) (seg_end (segs ! i)) > 2
      then Suc (speaker_ids sub k l segs ! i) else speaker_ids sub k l segs ! i)"
proof (induction segs arbitrary: k l i)
  case Nil
  then show ?case by simp
next
  case (Cons seg segs)
  show ?case
  proof (cases i)
    case 0
    with Cons.prems obtain s2 rest where "segs = s2 # rest" by (cases segs) auto
    with 0 show ?thesis by (simp add: Let_def)
  next
    case (Suc j)
    with Cons.prems have "Suc j < length segs" by simp
    from Cons.IH [OF this] Suc show ?thesis by (simp add: Let_def)
  qed
qed

lemma speaker_nth:
  "i < length segs \<Longrightarrow>
   speaker (label_speakers sub k l segs ! i)
     = Some (speaker_label (speaker_ids sub k l segs ! i))"
  using map_speaker_label_speakers [of sub k l segs]
  by (metis length_label_speakers length_speaker_ids nth_map)

lemma detect_nth:
  "i < length segs \<Longrightarrow>
   speaker (detect_speakers_simple sub segs ! i)
     = Some (speaker_label (speaker_ids sub 1 0 segs ! i))"
  by (cases "segs = []") (simp_all add: detect_speakers_simple_def speaker_nth)

text \<open>
  From the second segment on the labels follow the pauses as the float subtraction
  reports them: a difference above 2.0 gives the next speaker number, any other
  difference the number of the segment before.
\<close>

lemma labels_follow_computed_pauses:
  assumes "Suc i < length segs"
  shows "speaker (detect_speakers_simple sub segs ! Suc i)
         = Some (speaker_label
             (if sub (seg_start (segs ! Suc i)) (seg_end (segs ! i)) > 2
              then Suc (speaker_ids sub 1 0 segs ! i) else speaker_ids sub 1 0 segs ! i))"
  using detect_nth [OF assms, of sub] speaker_ids_step [OF assms, of sub 1 0] by simp

lemma str_nat_1: "str_nat (Suc 0) = ''1''"
  by code_simp

lemma str_nat_2: "str_nat (Suc (Suc 0)) = ''2''"
  by code_simp

text \<open>
  Claim C8 fails in the code. The loop starts with \<open>last_end = 0\<close> and compares the
  first segment with it as if a segment had ended at time 0. A recording with three
  seconds of silence before its first segment (3.0 to 5.0) and a second segment (5.5
  to 8.0) half a second later has no pause of more than two seconds between the two
  segments, and both are labelled "Speaker 2", not "Speaker 1". The two differences
  that the loop computes, 3.0 - 0 and 5.5 - 5.0, are exact in floats.
\<close>

theorem late_first_segment_is_speaker_2:
  "seg_start seg_late_b - seg_end seg_late_a = 1 / 2
   \<and> map speaker (detect_speakers_simple (\<lambda>a b. a - b) [seg_late_a, seg_late_b])
       = [Some ''Speaker 2'', Some ''Speaker 2'']
   \<and> map speaker (detect_speakers_simple (\<lambda>a b. a - b) [seg_late_a, seg_late_b])
       \<noteq> [Some ''Speaker 1'', Some ''Speaker 1'']"
  by (simp add: detect_speakers_simple_def speaker_label_def Let_def str_nat_2
      seg_late_a_def seg_late_b_def)

section \<open>Properties of the comparison codec and of comparisons\<close>

lemma is_digit_digit_char: "d < 10 \<Longrightarrow> is_digit (digit_char d)"
  by (simp add: is_digit_def digit_char_def)

lemma str_nat_nonempty: "str_nat n \<noteq> []"
  by (cases "n < 10") (simp_all add: str_nat_small str_nat_large)

lemma str_nat_digits: "list_all is_digit (str_nat n)"
proof (induction n rule: str_nat.induct)
  case (1 n)
  show ?case
  proof (cases "n < 10")
    case True
    then show ?thesis by (simp add: str_nat_small is_digit_digit_char)
  next
    case False
    with 1 show ?thesis by (simp add: str_nat_large is_digit_digit_char)
  qed
qed

lemma str_nat_0: "str_nat 0 = ''0''"
  by code_simp

lemma str_nat_eq_0: "str_nat n = ''0'' \<Longrightarrow> n = 0"
  using str_nat_inj [of n 0] by (simp add: str_nat_0)

lemma digit_char_0: "d < 10 \<Longrightarrow> digit_char d = CHR ''0'' \<Longrightarrow> d = 0"
proof -
  assume d: "d < 10" and e: "digit_char d = CHR ''0''"
  have "of_char (digit_char d) - 48 = (of_char (CHR ''0'') :: nat) - 48" using e by simp
  with digit_val [OF d] show ?thesis by simp
qed

lemma str_nat_leading: "str_nat n = ''0'' \<or> take 1 (str_nat n) \<noteq> ''0''"
proof (induction n rule: str_nat.induct)
  case (1 n)
  show ?case
  proof (cases "n < 10")
    case True
    then have s: "str_nat n = [digit_char n]" by (rule str_nat_small)
    show ?thesis
    proof (cases "n = 0")
      case True
      then show ?thesis by (simp add: str_nat_0)
    next
      case False
      with True digit_char_0 [of n] have "digit_char n \<noteq> CHR ''0''" by blast
      then show ?thesis unfolding s by simp
    qed
  next
    case False
    then have s: "str_nat n = str_nat (n div 10) @ [digit_char (n mod 10)]" by (rule str_nat_large)
    from False have "n div 10 \<noteq> 0" by simp
    with str_nat_eq_0 [of "n div 10"] have "str_nat (n div 10) \<noteq> ''0''" by auto
    with 1 False have "take 1 (str_nat (n div 10)) \<noteq> ''0''" by blast
    moreover have "take 1 (str_nat (n div 10) @ [digit_char (n mod 10)]) = take 1 (str_nat (n div 10))"
      using str_nat_nonempty [of "n div 10"] by (cases "str_nat (n div 10)") simp_all
    ultimately show ?thesis unfolding s by simp
  qed
qed

lemma parse_nat_lit_str_nat: "parse_nat_lit (str_nat n) = Some n"
  using str_nat_leading [of n]
  by (simp add: parse_nat_lit_def str_nat_nonempty str_nat_digits nat_of_str_nat)

lemma str_nat_not_minus: "str_nat n = c # cs \<Longrightarrow> c \<noteq> CHR ''-''"
  using str_nat_digits [of n] by (auto simp: is_digit_def)

lemma parse_int_lit_str_int: "parse_int_lit (str_int i) = Some i"
proof (cases "i < 0")
  case True
  then show ?thesis
    by (simp add: parse_int_lit_def str_int_def parse_nat_lit_str_nat)
next
  case False
  obtain c cs where s: "str_nat (nat i) = c # cs"
    using str_nat_nonempty [of "nat i"] by (cases "str_nat (nat i)") auto
  with str_nat_not_minus have "c \<noteq> CHR ''-''" by blast
  moreover have "parse_nat_lit (c # cs) = Some (nat i)"
    using parse_nat_lit_str_nat [of "nat i"] s by simp
  ultimately show ?thesis using False s
    by (simp add: parse_int_lit_def str_int_def)
qed

lemma str_int_chars: "list_all int_char (str_int i)"
  using str_nat_digits [of "nat i"] str_nat_digits [of "nat (- i)"]
  by (auto simp: str_int_def int_char_def list_all_iff)

lemma str_int_nonempty: "str_int i \<noteq> []"
  by (simp add: str_int_def str_nat_nonempty)

lemma int_char_not_ws: "int_char c \<Longrightarrow> \<not> json_ws c"
  by (auto simp: int_char_def is_digit_def json_ws_def)

lemma int_char_not_comma: "int_char c \<Longrightarrow> c \<noteq> CHR '',''"
  by (auto simp: int_char_def is_digit_def)

lemma json_strip_id:
  assumes "s \<noteq> []" "\<not> json_ws (hd s)" "\<not> json_ws (last s)"
  shows "json_strip s = s"
proof -
  from assms have 1: "dropWhile json_ws s = s" by (cases s) auto
  from assms have "rev s \<noteq> []" "\<not> json_ws (hd (rev s))" by (simp_all add: hd_rev)
  then have 2: "dropWhile json_ws (rev s) = rev s" by (cases "rev s") auto
  show ?thesis by (simp add: json_strip_def 1 2)
qed

lemma json_strip_space:
  assumes "s \<noteq> []" "\<not> json_ws (hd s)" "\<not> json_ws (last s)"
  shows "json_strip (CHR '' '' # s) = s"
proof -
  have "dropWhile json_ws (CHR '' '' # s) = dropWhile json_ws s" by (simp add: json_ws_def)
  then have "json_strip (CHR '' '' # s) = json_strip s" by (simp add: json_strip_def)
  with json_strip_id [OF assms] show ?thesis by simp
qed

lemma str_int_ends: "\<not> json_ws (hd (str_int i))" "\<not> json_ws (last (str_int i))"
proof -
  have ne: "str_int i \<noteq> []" by (rule str_int_nonempty)
  then have "hd (str_int i) \<in> set (str_int i)" "last (str_int i) \<in> set (str_int i)" by simp_all
  with str_int_chars [of i] have "int_char (hd (str_int i))" "int_char (last (str_int i))"
    by (auto simp: list_all_iff)
  then show "\<not> json_ws (hd (str_int i))" "\<not> json_ws (last (str_int i))"
    by (auto dest: int_char_not_ws)
qed

lemma parse_piece: "parse_int_lit (json_strip (str_int i)) = Some i"
  by (simp add: json_strip_id str_int_nonempty str_int_ends parse_int_lit_str_int)

lemma parse_spaced_piece: "parse_int_lit (json_strip (CHR '' '' # str_int i)) = Some i"
  by (simp add: json_strip_space str_int_nonempty str_int_ends parse_int_lit_str_int)

lemma split_on_nonempty: "split_on c s \<noteq> []"
  by (induction s) (auto split: list.splits)

lemma split_on_no_sep: "c \<notin> set a \<Longrightarrow> split_on c a = [a]"
  by (induction a) (auto split: list.splits)

lemma split_on_append: "c \<notin> set a \<Longrightarrow> split_on c (a @ c # b) = a # split_on c b"
  by (induction a) (auto split: list.splits)

lemma str_int_no_comma: "CHR '','' \<notin> set (str_int i)"
  using str_int_chars [of i] by (auto simp: list_all_iff dest: int_char_not_comma)

lemma split_join:
  "split_on CHR '','' (join '', '' (map str_int (x # xs)))
     = str_int x # map (\<lambda>y. CHR '' '' # str_int y) xs"
proof (induction xs arbitrary: x)
  case Nil
  show ?case by (simp add: split_on_no_sep str_int_no_comma)
next
  case (Cons y ys)
  have "join '', '' (map str_int (x # y # ys))
      = str_int x @ CHR '','' # CHR '' '' # join '', '' (map str_int (y # ys))" by simp
  then have "split_on CHR '','' (join '', '' (map str_int (x # y # ys)))
      = str_int x # split_on CHR '','' (CHR '' '' # join '', '' (map str_int (y # ys)))"
    by (simp only: split_on_append [OF str_int_no_comma])
  also have "split_on CHR '','' (CHR '' '' # join '', '' (map str_int (y # ys)))
      = (CHR '' '' # str_int y) # map (\<lambda>y. CHR '' '' # str_int y) ys"
    using Cons [of y] by simp
  finally show ?case by simp
qed

lemma parse_split_join:
  "map (\<lambda>part. parse_int_lit (json_strip part))
     (split_on CHR '','' (join '', '' (map str_int (x # xs)))) = map Some (x # xs)"
  by (subst split_join) (simp add: parse_piece parse_spaced_piece comp_def)

lemma those_map_Some: "those (map Some xs) = Some xs"
  by (induction xs) simp_all

lemma join_not_ws: "\<not> list_all json_ws (join '', '' (map str_int (x # xs)))"
proof -
  obtain c cs where s: "str_int x = c # cs"
    using str_int_nonempty [of x] by (cases "str_int x") auto
  with str_int_ends(1) [of x] have "\<not> json_ws c" by simp
  moreover have "c \<in> set (join '', '' (map str_int (x # xs)))"
    using s by (cases xs) simp_all
  ultimately show ?thesis by (auto simp: list_all_iff)
qed

lemma json_strip_dumps: "json_strip (dumps_ids ids) = dumps_ids ids"
  by (rule json_strip_id) (simp_all add: dumps_ids_def json_ws_def)

lemma loads_dumps_ids: "loads_ids (dumps_ids ids) = Some ids"
proof (cases ids)
  case Nil
  then show ?thesis
    by (simp add: loads_ids_def json_strip_dumps) (simp add: dumps_ids_def)
next
  case (Cons x xs)
  define inner where "inner = join '', '' (map str_int (x # xs))"
  have d: "dumps_ids ids = CHR ''['' # (inner @ '']'')"
    using Cons by (simp add: dumps_ids_def inner_def)
  have js: "json_strip (CHR ''['' # (inner @ '']'')) = CHR ''['' # (inner @ '']'')"
    using json_strip_dumps [of ids] by (simp only: d)
  have nws: "\<not> list_all json_ws inner"
    unfolding inner_def by (rule join_not_ws)
  have parsed: "those (map (\<lambda>part. parse_int_lit (json_strip part)) (split_on CHR '','' inner))
      = Some (x # xs)"
    unfolding inner_def parse_split_join by (rule those_map_Some)
  have "loads_ids (dumps_ids ids)
      = (case CHR ''['' # (inner @ '']'') of
           [] \<Rightarrow> None
         | c # rest \<Rightarrow>
             if c \<noteq> CHR ''['' \<or> rest = [] \<or> last rest \<noteq> CHR '']'' then None
             else
               (let inner = butlast rest
                in if list_all json_ws inner then Some []
                   else those (map (\<lambda>part. parse_int_lit (json_strip part))
                                 (split_on CHR '','' inner))))"
    unfolding loads_ids_def d js ..
  also have "\<dots> = Some (x # xs)"
    using nws parsed by (simp add: butlast_append)
  finally show ?thesis using Cons by simp
qed


lemma verify_documents_existing:
  "list_all (\<lambda>i. case get_document d i of Inr (Some doc) \<Rightarrow> True | _ \<Rightarrow> False) ids \<Longrightarrow>
   verify_documents d ids = None"
  by (induction ids) (auto split: sum.splits option.splits)

text \<open>
  Claim C6. A comparison created from at least two ids of existing documents is
  answered, and read back by its id, with exactly that list of ids in its order: the
  text that \<open>create_comparison\<close> writes parses back to the list. A request with fewer
  than two ids is answered with the client error 400 and leaves the database as it was.
\<close>

theorem comparison_ids_round_trip:
  "(2 \<le> length ids
    \<and> list_all (\<lambda>i. case get_document d i of Inr (Some doc) \<Rightarrow> True | _ \<Rightarrow> False) ids \<longrightarrow>
      fst (create_document_comparison d ttl descr ids)
        = Inr (Some \<lparr> out_comparison_id = comparison_seq d + 1, out_title = ttl,
                       out_description = descr, out_document_ids = ids \<rparr>)
      \<and> get_comparison (snd (create_document_comparison d ttl descr ids)) (comparison_seq d + 1)
        = Inr (Some \<lparr> out_comparison_id = comparison_seq d + 1, out_title = ttl,
                       out_description = descr, out_document_ids = ids \<rparr>))
   \<and> (length ids < 2 \<longrightarrow>
        create_document_comparison d ttl descr ids = (Inl (HTTPException 400 TooFewDocuments), d))"
proof (intro conjI impI)
  assume a: "2 \<le> length ids
    \<and> list_all (\<lambda>i. case get_document d i of Inr (Some doc) \<Rightarrow> True | _ \<Rightarrow> False) ids"
  then have f: "verify_documents d ids = None"
    by (simp add: verify_documents_existing)
  have g: "get_comparison (snd (create_comparison d ttl descr ids)) (comparison_seq d + 1)
      = Inr (Some \<lparr> out_comparison_id = comparison_seq d + 1, out_title = ttl,
                     out_description = descr, out_document_ids = ids \<rparr>)"
    by (simp add: get_comparison_def create_comparison_def Let_def loads_dumps_ids)
  have c: "fst (create_comparison d ttl descr ids) = comparison_seq d + 1"
    by (simp add: create_comparison_def Let_def)
  from a f g c
  show "fst (create_document_comparison d ttl descr ids)
        = Inr (Some \<lparr> out_comparison_id = comparison_seq d + 1, out_title = ttl,
                       out_description = descr, out_document_ids = ids \<rparr>)"
    by (simp add: create_document_comparison_def split_beta)
  from a f g c
  show "get_comparison (snd (create_document_comparison d ttl descr ids)) (comparison_seq d + 1)
        = Inr (Some \<lparr> out_comparison_id = comparison_seq d + 1, out_title = ttl,
                       out_description = descr, out_document_ids = ids \<rparr>)"
    by (simp add: create_document_comparison_def split_beta)
next
  assume "length ids < 2"
  then show "create_document_comparison d ttl descr ids
      = (Inl (HTTPException 400 TooFewDocuments), d)"
    by (simp add: create_document_comparison_def)
qed

lemma two_documents_exist:
  "\<exists>doc. get_document two_documents 1 = Inr (Some doc)"
  "\<exists>doc. get_document two_documents 2 = Inr (Some doc)"
  by (simp_all add: two_documents_def create_document_def init_db_def get_document_def Let_def)

theorem comparison_ids_round_trip_witness:
  "2 \<le> length [2, 1 :: int]
   \<and> list_all (\<lambda>i. case get_document two_documents i of Inr (Some doc) \<Rightarrow> True | _ \<Rightarrow> False) [2, 1]
   \<and> fst (create_document_comparison two_documents ''Q1'' None [2, 1])
       = Inr (Some \<lparr> out_comparison_id = comparison_seq two_documents + 1, out_title = ''Q1'',
                      out_description = None, out_document_ids = [2, 1] \<rparr>)
   \<and> length [7 :: int] < 2
   \<and> create_document_comparison two_documents ''Q1'' None [7]
       = (Inl (HTTPException 400 TooFewDocuments), two_documents)"
proof -
  from two_documents_exist
  have ex: "list_all (\<lambda>i. case get_document two_documents i of Inr (Some doc) \<Rightarrow> True | _ \<Rightarrow> False)
              [2, 1]"
    by auto
  from comparison_ids_round_trip [of "[2, 1]" two_documents "''Q1''" None]
    comparison_ids_round_trip [of "[7]" two_documents "''Q1''" None] ex
  show ?thesis by simp
qed

section \<open>Properties of the analysis read\<close>

lemma find_first_index:
  assumes "i < length xs" "P (xs ! i)" "\<forall>j<i. \<not> P (xs ! j)"
  shows "List.find P xs = Some (xs ! i)"
  using assms
proof (induction xs arbitrary: i)
  case Nil
  then show ?case by simp
next
  case (Cons x xs)
  show ?case
  proof (cases i)
    case 0
    with Cons.prems show ?thesis by simp
  next
    case (Suc k)
    with Cons.prems have "\<not> P x" by auto
    moreover from Suc Cons.prems have "k < length xs" "P (xs ! k)" "\<forall>j<k. \<not> P (xs ! j)"
      by auto
    ultimately show ?thesis using Cons.IH [of k] Suc by simp
  qed
qed

lemma first_analysis_row_index:
  assumes "i < length (analyses d)" "document_id (analyses d ! i) = doc_id"
    and "\<forall>j<i. document_id (analyses d ! j) \<noteq> doc_id"
  shows "first_analysis_row d doc_id = Some (int i + 1, analyses d ! i)"
proof -
  let ?xs = "zip (map int [1 ..< Suc (length (analyses d))]) (analyses d)"
  have len: "length ?xs = length (analyses d)" by (simp del: upt_Suc)
  have nth: "\<And>k. k < length (analyses d) \<Longrightarrow> ?xs ! k = (int k + 1, analyses d ! k)"
    by (simp del: upt_Suc)
  have "List.find (\<lambda>row. document_id (snd row) = doc_id) ?xs = Some (?xs ! i)"
  proof (rule find_first_index)
    show "i < length ?xs" using assms(1) len by simp
    show "document_id (snd (?xs ! i)) = doc_id" using assms(1,2) nth by simp
    show "\<forall>j<i. \<not> document_id (snd (?xs ! j)) = doc_id"
      using assms(1,3) nth by simp
  qed
  with nth [OF assms(1)] show ?thesis by (simp add: first_analysis_row_def)
qed

text \<open>
  Claim C9, as the code has it. For a document with analyses, the read answers with
  the first row of the document in the table, that is the analysis created earliest,
  whatever rows follow it: if row \<open>i\<close> (counted from 0, so its id is \<open>i + 1\<close>) is the
  first row with the document's id and its three text columns hold JSON, the read
  returns that row, with the columns parsed.
\<close>

theorem get_analysis_returns_earliest:
  assumes "- (2 ^ 63) \<le> doc_id" and "doc_id < 2 ^ 63"
    and "i < length (analyses d)"
    and "document_id (analyses d ! i) = doc_id"
    and "\<forall>j<i. document_id (analyses d ! j) \<noteq> doc_id"
    and "json_loads e (key_themes (analyses d ! i)) = Some themes"
    and "json_loads e (emotional_tone (analyses d ! i)) = Some tone"
    and "json_loads e (linguistic_metrics (analyses d ! i)) = Some lmetrics"
  shows "get_analysis_by_document_id e d doc_id
         = Inr (Some \<lparr> sentiment_score = sentiment_score (analyses d ! i),
                        confidence_score = confidence_score (analyses d ! i),
                        clarity_score = clarity_score (analyses d ! i),
                        readability_score = readability_score (analyses d ! i),
                        specificity_score = specificity_score (analyses d ! i),
                        out_id = int i + 1,
                        out_document_id = doc_id,
                        out_overall_sentiment = overall_sentiment (analyses d ! i),
                        out_key_themes = themes,
                        out_emotional_tone = tone,
                        out_linguistic_metrics = lmetrics \<rparr>)"
proof -
  have row: "first_analysis_row d doc_id = Some (int i + 1, analyses d ! i)"
    using assms(3,4,5) by (rule first_analysis_row_index)
  from assms(1,2) have range: "\<not> (doc_id < - (2 ^ 63) \<or> 2 ^ 63 \<le> doc_id)" by simp
  show ?thesis
    unfolding get_analysis_by_document_id_def
    using range
    by (simp add: row loads_value_def assms(4,6,7,8))
qed

lemma three_analyses_rows:
  "analyses three_analyses = [analysis_row 2 50, analysis_row 1 10, analysis_row 1 90]"
  "map document_id (analyses three_analyses) = [2, 1, 1]"
  "map sentiment_score (analyses three_analyses) = [JInt 50, JInt 10, JInt 90]"
  by (simp_all add: three_analyses_def analysis_row_def)

lemma three_analyses_texts:
  "json_loads env_unreachable (key_themes (analysis_row k n)) = Some (JArr [])"
  "json_loads env_unreachable (emotional_tone (analysis_row k n)) = Some (JObj [])"
  "json_loads env_unreachable (linguistic_metrics (analysis_row k n)) = Some (JObj [])"
  by (simp_all add: analysis_row_def env_unreachable_def example_loads_def)

theorem get_analysis_returns_earliest_witness:
  "map document_id (analyses three_analyses) = [2, 1, 1]
   \<and> map sentiment_score (analyses three_analyses) = [JInt 50, JInt 10, JInt 90]
   \<and> get_analysis_by_document_id env_unreachable three_analyses 1
       = Inr (Some \<lparr> sentiment_score = JInt 10, confidence_score = JInt 10,
                      clarity_score = JInt 10, readability_score = JInt 10,
                      specificity_score = JInt 10, out_id = 2, out_document_id = 1,
                      out_overall_sentiment = JStr ''neutral'', out_key_themes = JArr [],
                      out_emotional_tone = JObj [], out_linguistic_metrics = JObj [] \<rparr>)"
proof -
  have less: "\<forall>j<Suc 0. document_id (analyses three_analyses ! j) \<noteq> 1"
    by (simp add: three_analyses_rows analysis_row_def)
  have "get_analysis_by_document_id env_unreachable three_analyses 1
         = Inr (Some \<lparr> sentiment_score = sentiment_score (analyses three_analyses ! Suc 0),
                        confidence_score = confidence_score (analyses three_analyses ! Suc 0),
                        clarity_score = clarity_score (analyses three_analyses ! Suc 0),
                        readability_score = readability_score (analyses three_analyses ! Suc 0),
                        specificity_score = specificity_score (analyses three_analyses ! Suc 0),
                        out_id = int (Suc 0) + 1,
                        out_document_id = 1,
                        out_overall_sentiment = overall_sentiment (analyses three_analyses ! Suc 0),
                        out_key_themes = JArr [],
                        out_emotional_tone = JObj [],
                        out_linguistic_metrics = JObj [] \<rparr>)"
    by (rule get_analysis_returns_earliest [where i = "Suc 0"])
       (simp_all add: three_analyses_rows three_analyses_texts less, simp_all add: analysis_row_def)
  then show ?thesis
    by (simp add: three_analyses_rows, simp add: analysis_row_def)
qed

text \<open>
  The claim as written fails: document 1 has the analyses with ids 2 and 3, the one
  with id 3 created last, and the read answers with the one with id 2.
\<close>

theorem latest_analysis_not_returned_counterexample:
  "map document_id (analyses three_analyses) = [2, 1, 1]
   \<and> map sentiment_score (analyses three_analyses) = [JInt 50, JInt 10, JInt 90]
   \<and> map_sum id (map_option out_id) (get_analysis_by_document_id env_unreachable three_analyses 1)
       = Inr (Some 2)
   \<and> map_sum id (map_option sentiment_score)
       (get_analysis_by_document_id env_unreachable three_analyses 1) = Inr (Some (JInt 10))
   \<and> map_sum id (map_option out_id) (get_analysis_by_document_id env_unreachable three_analyses 1)
       \<noteq> Inr (Some 3)"
  by (simp add: get_analysis_by_document_id_def first_analysis_row_def three_analyses_rows
      three_analyses_texts loads_value_def, simp add: analysis_row_def)

section \<open>What the storage operations and the shared statements change\<close>

lemma then_do_Inr: "then_do r f = Inr y \<Longrightarrow> \<exists>v. r = Inr v \<and> f v = Inr y"
  by (cases r) simp_all

lemma create_analysis_Inr:
  assumes "create_analysis e d doc_id sentiment sc themes tone lmetrics = Inr (k, d')"
  shows "k = int (length (analyses d)) + 1"
    and "\<exists>row. analyses d' = analyses d @ [row] \<and> document_id row = doc_id
           \<and> score_values row = map (integer_affinity e) (score_values sc)"
    and "documents d' = documents d" and "journal d' = journal d"
    and "sections d' = sections d" and "comparisons d' = comparisons d"
    and "comparison_seq d' = comparison_seq d" and "metrics_history d' = metrics_history d"
  using assms
  by (auto simp: create_analysis_def score_values_def split: option.splits)

lemma read_scores_Inr:
  assumes "read_scores r = Inr sc"
  shows "map (py_getitem r) [''sentiment_score'', ''confidence_score'', ''clarity_score'',
            ''readability_score'', ''specificity_score''] = map Inr (score_values sc)"
proof -
  from assms obtain s1 s2 s3 s4 s5 where
    "py_getitem r ''sentiment_score'' = Inr s1" "py_getitem r ''confidence_score'' = Inr s2"
    "py_getitem r ''clarity_score'' = Inr s3" "py_getitem r ''readability_score'' = Inr s4"
    "py_getitem r ''specificity_score'' = Inr s5"
    "sc = \<lparr> sentiment_score = s1, confidence_score = s2, clarity_score = s3,
             readability_score = s4, specificity_score = s5 \<rparr>"
    unfolding read_scores_def by (auto dest!: then_do_Inr)
  then show ?thesis by (simp add: score_values_def)
qed

lemma store_analysis_Inr:
  assumes "store_analysis e d doc_id r = Inr (k, d')"
  shows "k = int (length (analyses d)) + 1"
    and "\<exists>row sc. analyses d' = analyses d @ [row] \<and> document_id row = doc_id
           \<and> read_scores r = Inr sc
           \<and> score_values row = map (integer_affinity e) (score_values sc)"
    and "documents d' = documents d" and "journal d' = journal d"
    and "sections d' = sections d" and "comparisons d' = comparisons d"
    and "comparison_seq d' = comparison_seq d" and "metrics_history d' = metrics_history d"
proof -
  from assms obtain sentiment sc themes tone lmetrics where
    rs: "read_scores r = Inr sc"
    and c: "create_analysis e d doc_id sentiment sc themes tone lmetrics = Inr (k, d')"
    unfolding store_analysis_def by (auto dest!: then_do_Inr)
  from create_analysis_Inr [OF c] rs
  show "k = int (length (analyses d)) + 1"
    and "\<exists>row sc. analyses d' = analyses d @ [row] \<and> document_id row = doc_id
           \<and> read_scores r = Inr sc
           \<and> score_values row = map (integer_affinity e) (score_values sc)"
    and "documents d' = documents d" and "journal d' = journal d"
    and "sections d' = sections d" and "comparisons d' = comparisons d"
    and "comparison_seq d' = comparison_seq d" and "metrics_history d' = metrics_history d"
    by auto
qed

lemma create_section_Inr:
  assumes "create_section e d an_id stitle stype spk otext sc iss revision rationale ord = Inr (k, d')"
  shows "\<exists>row. sections d' = sections d @ [row] \<and> analysis_id row = an_id \<and> section_order row = ord"
    and "documents d' = documents d" and "journal d' = journal d"
    and "analyses d' = analyses d" and "comparisons d' = comparisons d"
    and "comparison_seq d' = comparison_seq d" and "metrics_history d' = metrics_history d"
  using assms
  by (auto simp: create_section_def split: option.splits if_splits)

lemma store_section_Inr:
  assumes "store_section e d an_id sec idx = Inr (k, d')"
  shows "\<exists>row. sections d' = sections d @ [row] \<and> analysis_id row = an_id
           \<and> section_order row = int idx"
    and "documents d' = documents d" and "journal d' = journal d"
    and "analyses d' = analyses d" and "comparisons d' = comparisons d"
    and "comparison_seq d' = comparison_seq d" and "metrics_history d' = metrics_history d"
proof -
  from assms obtain stitle stype spk otext sc iss revision rationale where
    c: "create_section e d an_id stitle stype spk otext sc iss revision rationale (int idx) = Inr (k, d')"
    unfolding store_section_def by (auto dest!: then_do_Inr)
  from create_section_Inr [OF c]
  show "\<exists>row. sections d' = sections d @ [row] \<and> analysis_id row = an_id
           \<and> section_order row = int idx"
    and "documents d' = documents d" and "journal d' = journal d"
    and "analyses d' = analyses d" and "comparisons d' = comparisons d"
    and "comparison_seq d' = comparison_seq d" and "metrics_history d' = metrics_history d"
    by auto
qed

lemma save_sections_result:
  "save_sections e d an_id idx secs = (r, d') \<Longrightarrow>
     (\<exists>new. sections d' = sections d @ new
           \<and> map analysis_id new = replicate (length new) an_id
           \<and> map section_order new = map int [idx ..< idx + length new]
           \<and> length new \<le> length secs
           \<and> (r = None \<longrightarrow> length new = length secs))
     \<and> documents d' = documents d \<and> journal d' = journal d
     \<and> analyses d' = analyses d \<and> comparisons d' = comparisons d
     \<and> comparison_seq d' = comparison_seq d \<and> metrics_history d' = metrics_history d"
proof (induction secs arbitrary: d idx)
  case Nil
  then show ?case by simp
next
  case (Cons sec secs)
  show ?case
  proof (cases "store_section e d an_id sec idx")
    case (Inl x)
    with Cons.prems have "r = Some x" "d' = d" by simp_all
    then show ?thesis by simp
  next
    case (Inr kd)
    obtain k d1 where kd: "kd = (k, d1)" by (cases kd)
    with Inr Cons.prems have rest: "save_sections e d1 an_id (Suc idx) secs = (r, d')" by simp
    from store_section_Inr [OF Inr [unfolded kd]] obtain row where
      row: "sections d1 = sections d @ [row]" "analysis_id row = an_id"
        "section_order row = int idx"
      and fr: "documents d1 = documents d" "journal d1 = journal d" "analyses d1 = analyses d"
        "comparisons d1 = comparisons d" "comparison_seq d1 = comparison_seq d"
        "metrics_history d1 = metrics_history d"
      by blast
    from Cons.IH [OF rest] obtain new where
      new: "sections d' = sections d1 @ new"
        "map analysis_id new = replicate (length new) an_id"
        "map section_order new = map int [Suc idx ..< Suc idx + length new]"
        "length new \<le> length secs" "r = None \<longrightarrow> length new = length secs"
      and fr': "documents d' = documents d1" "journal d' = journal d1" "analyses d' = analyses d1"
        "comparisons d' = comparisons d1" "comparison_seq d' = comparison_seq d1"
        "metrics_history d' = metrics_history d1"
      by blast
    have u: "[idx ..< idx + length (row # new)] = idx # [Suc idx ..< Suc idx + length new]"
      by (simp del: upt_Suc add: upt_conv_Cons)
    have "map section_order (row # new) = map int [idx ..< idx + length (row # new)]"
      unfolding u using row(3) new(3) by (simp del: upt_Suc)
    moreover have "sections d' = sections d @ (row # new)" using row(1) new(1) by simp
    moreover have "map analysis_id (row # new) = replicate (length (row # new)) an_id"
      using row(2) new(2) by simp
    moreover have "length (row # new) \<le> length (sec # secs)" using new(4) by simp
    moreover have "r = None \<longrightarrow> length (row # new) = length (sec # secs)" using new(5) by simp
    ultimately have "\<exists>new. sections d' = sections d @ new
           \<and> map analysis_id new = replicate (length new) an_id
           \<and> map section_order new = map int [idx ..< idx + length new]
           \<and> length new \<le> length (sec # secs)
           \<and> (r = None \<longrightarrow> length new = length (sec # secs))"
      by blast
    with fr fr' show ?thesis by simp
  qed
qed

lemma create_metrics_Inr:
  assumes "create_metrics e d doc_id an_id dtype sc = Inr (k, d')"
  shows "documents d' = documents d \<and> journal d' = journal d \<and> sections d' = sections d
       \<and> analyses d' = analyses d \<and> comparisons d' = comparisons d
       \<and> comparison_seq d' = comparison_seq d
       \<and> length (metrics_history d') = Suc (length (metrics_history d))"
  using assms by (auto simp: create_metrics_def split: option.splits)

lemma update_status_frame:
  "analyses (update_document_status d i st) = analyses d"
  "sections (update_document_status d i st) = sections d"
  "comparisons (update_document_status d i st) = comparisons d"
  "comparison_seq (update_document_status d i st) = comparison_seq d"
  "metrics_history (update_document_status d i st) = metrics_history d"
  "length (documents (update_document_status d i st)) = length (documents d)"
  by (simp_all add: update_document_status_def)

lemma update_status_journal:
  "1 \<le> i \<Longrightarrow> i \<le> int (length (documents d)) \<Longrightarrow>
   journal (update_document_status d i st) = journal d @ [(i, st)]"
  by (simp add: update_document_status_def)

lemma update_status_documents:
  "1 \<le> i \<Longrightarrow> i \<le> int (length (documents d)) \<Longrightarrow>
   documents (update_document_status d i st)
     = (documents d)[nat (i - 1) := (documents d ! nat (i - 1))\<lparr>status := st\<rparr>]"
  by (simp add: update_document_status_def)

lemma analyze_and_store_outcome:
  assumes "analyze_and_store e d doc_id dtype model text_content = (r, d')"
  obtains
    (no_analysis) x where "r = Some x" "d' = d"
  | (stopped) x row new where "r = Some x"
      "documents d' = documents d" "journal d' = journal d"
      "comparisons d' = comparisons d" "comparison_seq d' = comparison_seq d"
      "analyses d' = analyses d @ [row]" "document_id row = doc_id"
      "sections d' = sections d @ new"
      "map analysis_id new = replicate (length new) (int (length (analyses d)) + 1)"
      "map section_order new = map int [0 ..< length new]"
  | (completed) d4 result row sc secs new where "r = None"
      "d' = update_document_status d4 doc_id ''completed''"
      "documents d4 = documents d" "journal d4 = journal d"
      "comparisons d4 = comparisons d" "comparison_seq d4 = comparison_seq d"
      "analyses d4 = analyses d @ [row]" "document_id row = doc_id"
      "analyze_document_content e text_content model = Inr result"
      "read_scores result = Inr sc"
      "score_values row = map (integer_affinity e) (score_values sc)"
      "then_do (analyze_sections_content e text_content model) py_iter = Inr secs"
      "sections d4 = sections d @ new" "length new = length secs"
      "map analysis_id new = replicate (length new) (int (length (analyses d)) + 1)"
      "map section_order new = map int [0 ..< length new]"
proof (cases "analyze_document_content e text_content model")
  case (Inl x)
  with assms have "r = Some x" "d' = d" by (simp_all add: analyze_and_store_def)
  then show ?thesis by (rule no_analysis)
next
  case result: (Inr result)
  show ?thesis
  proof (cases "store_analysis e d doc_id result")
    case (Inl x)
    with assms result have "r = Some x" "d' = d" by (simp_all add: analyze_and_store_def)
    then show ?thesis by (rule no_analysis)
  next
    case (Inr kd)
    obtain an_id d2 where kd: "kd = (an_id, d2)" by (cases kd)
    note sa = store_analysis_Inr [OF Inr [unfolded kd]]
    from sa(2) obtain row sc where row: "analyses d2 = analyses d @ [row]"
      "document_id row = doc_id" "read_scores result = Inr sc"
      "score_values row = map (integer_affinity e) (score_values sc)" by blast
    show ?thesis
    proof (cases "then_do (analyze_sections_content e text_content model) py_iter")
      case (Inl x)
      with assms result Inr kd have "r = Some x" "d' = d2"
        by (simp_all add: analyze_and_store_def)
      with sa row show ?thesis by (intro stopped [of x row "[]"]) simp_all
    next
      case secs: (Inr secs)
      obtain r3 d3 where s3: "save_sections e d2 an_id 0 secs = (r3, d3)"
        by (cases "save_sections e d2 an_id 0 secs")
      from save_sections_result [OF s3] obtain new where
        new: "sections d3 = sections d2 @ new" "map analysis_id new = replicate (length new) an_id"
          "map section_order new = map int [0 ..< length new]"
          "r3 = None \<longrightarrow> length new = length secs"
        and fr3: "documents d3 = documents d2" "journal d3 = journal d2"
          "analyses d3 = analyses d2" "comparisons d3 = comparisons d2"
          "comparison_seq d3 = comparison_seq d2"
        by auto
      show ?thesis
      proof (cases r3)
        case (Some x)
        with assms result Inr kd secs s3 have "r = Some x" "d' = d3"
          by (simp_all add: analyze_and_store_def)
        with sa row new fr3 show ?thesis by (intro stopped [of x row new]) simp_all
      next
        case None
        show ?thesis
        proof (cases "then_do (read_scores result) (create_metrics e d3 doc_id an_id dtype)")
          case (Inl x)
          with assms result Inr kd secs s3 None have "r = Some x" "d' = d3"
            by (simp_all add: analyze_and_store_def)
          with sa row new fr3 show ?thesis by (intro stopped [of x row new]) simp_all
        next
          case m: (Inr md)
          obtain m_id d4 where md: "md = (m_id, d4)" by (cases md)
          from m md row(3) have "create_metrics e d3 doc_id an_id dtype sc = Inr (m_id, d4)"
            by simp
          note cm = create_metrics_Inr [OF this]
          from assms result Inr kd secs s3 None m md
          have "r = None" "d' = update_document_status d4 doc_id ''completed''"
            by (simp_all add: analyze_and_store_def)
          with sa row new fr3 cm None secs result show ?thesis
            by (intro completed [of d4 row result sc secs new]) simp_all
        qed
      qed
    qed
  qed
qed

section \<open>The status writes of one upload\<close>

lemma upload_document_rejected:
  "\<not> upload_accepted e dtype model file \<Longrightarrow>
   snd (upload_document e d ttl dtype model file) = d
   \<and> (\<exists>f. fst (upload_document e d ttl dtype model file) = Inl f)"
  by (auto simp: upload_accepted_def saved_path_def upload_document_def Let_def
      split: ollama_status.splits sum.splits)

lemma upload_document_accepted:
  "upload_accepted e dtype model file \<Longrightarrow>
   upload_document e d ttl dtype model file =
     (case process_document e (snd (create_document d ttl dtype (saved_path e file)))
             (int (length (documents d)) + 1) dtype model (saved_path e file) of
        (Some x, d2) \<Rightarrow>
          (Inl (HTTPException 500 (AnalysisFailed x)),
           update_document_status d2 (int (length (documents d)) + 1) ''failed'')
      | (None, d2) \<Rightarrow>
          (case get_document d2 (int (length (documents d)) + 1) of
             Inl x \<Rightarrow> (Inl (Unhandled x), d2)
           | Inr doc \<Rightarrow> (Inr doc, d2)))"
  by (auto simp: upload_accepted_def upload_document_def saved_path_def create_document_def Let_def
      split: ollama_status.splits sum.splits)

lemma upload_document_accepted_db:
  assumes "upload_accepted e dtype model file"
    and "process_document e (snd (create_document d ttl dtype (saved_path e file)))
           (int (length (documents d)) + 1) dtype model (saved_path e file) = (r, d2)"
  shows "snd (upload_document e d ttl dtype model file)
     = (case r of
          Some x \<Rightarrow> update_document_status d2 (int (length (documents d)) + 1) ''failed''
        | None \<Rightarrow> d2)"
  using upload_document_accepted [OF assms(1), of d ttl] assms(2)
  by (simp split: option.splits sum.splits)

lemma audio_rejected:
  "\<not> audio_accepted e dtype file \<Longrightarrow>
   snd (upload_audio_document e d ttl dtype model preset language detect file) = d
   \<and> (\<exists>f. fst (upload_audio_document e d ttl dtype model preset language detect file) = Inl f)"
  by (auto simp: audio_accepted_def saved_path_def upload_audio_document_def Let_def)

lemma audio_accepted_run:
  "audio_accepted e dtype file \<Longrightarrow>
   upload_audio_document e d ttl dtype model preset language detect file =
     (case process_audio e (snd (create_document d ttl dtype (saved_path e file)))
             (int (length (documents d)) + 1) dtype model preset language detect
             (saved_path e file) (file_size file) of
        (Some x, d2) \<Rightarrow>
          (Inl (HTTPException 500 (ProcessingFailed x)),
           update_document_status d2 (int (length (documents d)) + 1) ''failed'')
      | (None, d2) \<Rightarrow> (Inr (int (length (documents d)) + 1), d2))"
  by (auto simp: audio_accepted_def upload_audio_document_def saved_path_def create_document_def
      Let_def)

lemma audio_accepted_db:
  assumes "audio_accepted e dtype file"
    and "process_audio e (snd (create_document d ttl dtype (saved_path e file)))
           (int (length (documents d)) + 1) dtype model preset language detect
           (saved_path e file) (file_size file) = (r, d2)"
  shows "snd (upload_audio_document e d ttl dtype model preset language detect file)
     = (case r of
          Some x \<Rightarrow> update_document_status d2 (int (length (documents d)) + 1) ''failed''
        | None \<Rightarrow> d2)"
  using audio_accepted_run [OF assms(1), of d ttl model preset language detect] assms(2)
  by (simp split: option.splits)

lemma create_document_frame:
  "documents (snd (create_document d ttl dtype path))
     = documents d @ [\<lparr> title = ttl, document_type = dtype, file_path = path, status = ''uploading'' \<rparr>]"
  "journal (snd (create_document d ttl dtype path))
     = journal d @ [(int (length (documents d)) + 1, ''uploading'')]"
  "analyses (snd (create_document d ttl dtype path)) = analyses d"
  "sections (snd (create_document d ttl dtype path)) = sections d"
  "comparisons (snd (create_document d ttl dtype path)) = comparisons d"
  "comparison_seq (snd (create_document d ttl dtype path)) = comparison_seq d"
  by (simp_all add: create_document_def Let_def)

text \<open>
  The writes \<open>w\<close> of one run to the status column of the row at position \<open>n\<close>: the log
  grows by them and the column holds the last of them.
\<close>

lemma written_Nil [simp]: "written [] n docs = docs"
  by (simp add: written_def)

lemma written_length [simp]: "length (written w n docs) = length docs"
  by (simp add: written_def)

lemma written_append:
  "n < length docs \<Longrightarrow> written w2 n (written w1 n docs) = written (w1 @ w2) n docs"
  by (simp add: written_def)

lemma written_last:
  "w \<noteq> [] \<Longrightarrow>
   written w (length docs) (docs @ [row\<lparr>status := st\<rparr>]) = docs @ [row\<lparr>status := last w\<rparr>]"
  by (simp add: written_def)

lemma update_status_new:
  assumes "length (documents d1) = Suc n"
  shows "journal (update_document_status d1 (int n + 1) st) = journal d1 @ [(int n + 1, st)]"
    and "documents (update_document_status d1 (int n + 1) st) = written [st] n (documents d1)"
  using assms by (simp_all add: update_document_status_def written_def)

lemma analyze_and_store_journal:
  assumes "length (documents d1) = Suc n"
    and "analyze_and_store e d1 (int n + 1) dtype model text_content = (r, d2)"
  shows "journal d2 = journal d1 @ map (Pair (int n + 1)) (if r = None then [''completed''] else [])
       \<and> documents d2 = written (if r = None then [''completed''] else []) n (documents d1)"
  using assms(2)
proof (cases rule: analyze_and_store_outcome)
  case (no_analysis x)
  then show ?thesis by simp
next
  case (stopped x row new)
  then show ?thesis by simp
next
  case (completed d4 result row sc secs new)
  from completed(3) assms(1) have "length (documents d4) = Suc n" by simp
  from update_status_new [OF this, of "''completed''"] completed(1,2,3,4) show ?thesis
    by simp
qed

lemma process_document_journal:
  assumes "length (documents d1) = Suc n"
    and "process_document e d1 (int n + 1) dtype model path = (r, d2)"
    and "w = (case extract_text_from_file e path of
                Inl x \<Rightarrow> []
              | Inr t \<Rightarrow> if r = None then [''processing'', ''completed''] else [''processing''])"
  shows "journal d2 = journal d1 @ map (Pair (int n + 1)) w
       \<and> documents d2 = written w n (documents d1)
       \<and> (r = None \<longrightarrow> (\<exists>t. extract_text_from_file e path = Inr t))"
proof (cases "extract_text_from_file e path")
  case (Inl x)
  with assms show ?thesis by (auto simp: process_document_def)
next
  case (Inr text_content)
  let ?d = "update_document_status d1 (int n + 1) ''processing''"
  note u = update_status_new [OF assms(1), of "''processing''"]
  have len: "length (documents ?d) = Suc n" using assms(1) u(2) by simp
  from assms(2) Inr
  have "analyze_and_store e ?d (int n + 1) dtype model text_content = (r, d2)"
    by (simp add: process_document_def)
  from analyze_and_store_journal [OF len this] u assms(1) Inr assms(3) show ?thesis
    by (simp add: written_append)
qed

lemma process_audio_journal:
  assumes "length (documents d1) = Suc n"
    and "process_audio e d1 (int n + 1) dtype model preset language detect path size_bytes = (r, d2)"
    and "w = (case transcribe_audio_file e path size_bytes (fst (preset_config preset)) language
                     (snd (preset_config preset)) detect of
                Inl x \<Rightarrow> [''transcribing'']
              | Inr result \<Rightarrow>
                  if \<not> writable e (path @ ''.transcript.txt'') then [''transcribing'']
                  else if r = None then [''transcribing'', ''analyzing'', ''completed'']
                  else [''transcribing'', ''analyzing''])"
  shows "journal d2 = journal d1 @ map (Pair (int n + 1)) w
       \<and> documents d2 = written w n (documents d1)
       \<and> (r = None \<longrightarrow>
            (\<exists>result. transcribe_audio_file e path size_bytes (fst (preset_config preset)) language
                        (snd (preset_config preset)) detect = Inr result
                      \<and> writable e (path @ ''.transcript.txt'')))"
proof -
  let ?t = "update_document_status d1 (int n + 1) ''transcribing''"
  note ut = update_status_new [OF assms(1), of "''transcribing''"]
  have lt: "length (documents ?t) = Suc n" using assms(1) ut(2) by simp
  show ?thesis
  proof (cases "transcribe_audio_file e path size_bytes (fst (preset_config preset)) language
                     (snd (preset_config preset)) detect")
    case (Inl x)
    with assms(2) have "r = Some x" "d2 = ?t" by (simp_all add: process_audio_def Let_def split_beta)
    with Inl assms(3) ut show ?thesis by simp
  next
    case (Inr result)
    show ?thesis
    proof (cases "writable e (path @ ''.transcript.txt'')")
      case False
      with assms(2) Inr have "r = Some OSError" "d2 = ?t"
        by (simp_all add: process_audio_def Let_def split_beta)
      with Inr False assms(3) ut show ?thesis by simp
    next
      case True
      let ?a = "update_document_status ?t (int n + 1) ''analyzing''"
      note ua = update_status_new [OF lt, of "''analyzing''"]
      have la: "length (documents ?a) = Suc n" using lt ua(2) by simp
      from assms(2) Inr True
      have "analyze_and_store e ?a (int n + 1) dtype model (formatted_text result) = (r, d2)"
        by (simp add: process_audio_def Let_def split_beta)
      from analyze_and_store_journal [OF la this] ua ut assms(1) lt Inr True assms(3)
      show ?thesis by (simp add: written_append)
    qed
  qed
qed

text \<open>
  The writes of an accepted text upload, from the insert of the row to the last
  update: exactly which of the three sequences it is, and the Document row it leaves.
\<close>

lemma upload_document_journal:
  assumes "upload_accepted e dtype model file"
    and "trace = (case extract_text_from_file e (saved_path e file) of
            Inl x \<Rightarrow> [''uploading'', ''failed'']
          | Inr t \<Rightarrow>
              if fst (analyze_and_store e
                        (update_document_status
                           (snd (create_document d ttl dtype (saved_path e file)))
                           (int (length (documents d)) + 1) ''processing'')
                        (int (length (documents d)) + 1) dtype model t) = None
              then [''uploading'', ''processing'', ''completed'']
              else [''uploading'', ''processing'', ''failed''])"
  shows "journal (snd (upload_document e d ttl dtype model file))
           = journal d @ map (Pair (int (length (documents d)) + 1)) trace"
    and "documents (snd (upload_document e d ttl dtype model file))
           = documents d @ [\<lparr> title = ttl, document_type = dtype,
                               file_path = saved_path e file, status = last trace \<rparr>]"
proof -
  let ?n = "length (documents d)"
  let ?path = "saved_path e file"
  let ?d1 = "snd (create_document d ttl dtype ?path)"
  let ?row = "\<lparr> title = ttl, document_type = dtype, file_path = ?path, status = ''uploading'' \<rparr>"
  have l1: "length (documents ?d1) = Suc ?n" by (simp add: create_document_frame)
  have j1: "journal ?d1 = journal d @ [(int ?n + 1, ''uploading'')]"
    by (simp add: create_document_frame)
  have c1: "documents ?d1 = documents d @ [?row]" by (simp add: create_document_frame)
  obtain r d2 where p: "process_document e ?d1 (int ?n + 1) dtype model ?path = (r, d2)"
    by (cases "process_document e ?d1 (int ?n + 1) dtype model ?path")
  define w where "w = (case extract_text_from_file e ?path of
                Inl x \<Rightarrow> []
              | Inr t \<Rightarrow> if r = None then [''processing'', ''completed''] else [''processing''])"
  note pj = process_document_journal [OF l1 p w_def]
  then have l2: "length (documents d2) = Suc ?n" using l1 by simp
  note uf = update_status_new [OF l2, of "''failed''"]
  note res = upload_document_accepted_db [OF assms(1) p]
  have r: "\<And>t. extract_text_from_file e ?path = Inr t \<Longrightarrow>
      fst (analyze_and_store e (update_document_status ?d1 (int ?n + 1) ''processing'')
             (int ?n + 1) dtype model t) = r"
    using p by (simp add: process_document_def)
  have fail: "\<And>x. extract_text_from_file e ?path = Inl x \<Longrightarrow> r \<noteq> None"
    using pj by auto
  have tr: "trace = ''uploading'' # w @ (if r = None then [] else [''failed''])"
    using assms(2) r fail unfolding w_def by (auto split: sum.splits)
  have dd: "documents (snd (upload_document e d ttl dtype model file))
      = written (w @ (if r = None then [] else [''failed''])) ?n (documents ?d1)"
    using res pj uf l1 by (auto simp: written_append split: option.splits)
  show "journal (snd (upload_document e d ttl dtype model file))
           = journal d @ map (Pair (int ?n + 1)) trace"
    using res pj uf j1 tr by (auto split: option.splits)
  show "documents (snd (upload_document e d ttl dtype model file))
           = documents d @ [\<lparr> title = ttl, document_type = dtype,
                               file_path = ?path, status = last trace \<rparr>]"
    unfolding dd c1 tr by (simp add: written_def)
qed

lemma upload_audio_journal:
  assumes "audio_accepted e dtype file"
    and "trace = (case transcribe_audio_file e (saved_path e file) (file_size file)
                 (fst (preset_config preset)) language (snd (preset_config preset)) detect of
            Inl x \<Rightarrow> [''uploading'', ''transcribing'', ''failed'']
          | Inr result \<Rightarrow>
              if \<not> writable e (saved_path e file @ ''.transcript.txt'')
              then [''uploading'', ''transcribing'', ''failed'']
              else if fst (analyze_and_store e
                        (update_document_status
                           (update_document_status
                              (snd (create_document d ttl dtype (saved_path e file)))
                              (int (length (documents d)) + 1) ''transcribing'')
                           (int (length (documents d)) + 1) ''analyzing'')
                        (int (length (documents d)) + 1) dtype model (formatted_text result)) = None
              then [''uploading'', ''transcribing'', ''analyzing'', ''completed'']
              else [''uploading'', ''transcribing'', ''analyzing'', ''failed''])"
  shows "journal (snd (upload_audio_document e d ttl dtype model preset language detect file))
           = journal d @ map (Pair (int (length (documents d)) + 1)) trace"
    and "documents (snd (upload_audio_document e d ttl dtype model preset language detect file))
           = documents d @ [\<lparr> title = ttl, document_type = dtype,
                               file_path = saved_path e file, status = last trace \<rparr>]"
proof -
  let ?n = "length (documents d)"
  let ?path = "saved_path e file"
  let ?d1 = "snd (create_document d ttl dtype ?path)"
  let ?run = "upload_audio_document e d ttl dtype model preset language detect file"
  let ?row = "\<lparr> title = ttl, document_type = dtype, file_path = ?path, status = ''uploading'' \<rparr>"
  let ?tr = "transcribe_audio_file e ?path (file_size file)
                 (fst (preset_config preset)) language (snd (preset_config preset)) detect"
  have l1: "length (documents ?d1) = Suc ?n" by (simp add: create_document_frame)
  have j1: "journal ?d1 = journal d @ [(int ?n + 1, ''uploading'')]"
    by (simp add: create_document_frame)
  have c1: "documents ?d1 = documents d @ [?row]" by (simp add: create_document_frame)
  obtain r d2 where p: "process_audio e ?d1 (int ?n + 1) dtype model preset language detect
      ?path (file_size file) = (r, d2)"
    by (cases "process_audio e ?d1 (int ?n + 1) dtype model preset language detect
      ?path (file_size file)")
  define w where "w = (case ?tr of
                Inl x \<Rightarrow> [''transcribing'']
              | Inr result \<Rightarrow>
                  if \<not> writable e (?path @ ''.transcript.txt'') then [''transcribing'']
                  else if r = None then [''transcribing'', ''analyzing'', ''completed'']
                  else [''transcribing'', ''analyzing''])"
  note pj = process_audio_journal [OF l1 p w_def]
  then have l2: "length (documents d2) = Suc ?n" using l1 by simp
  note uf = update_status_new [OF l2, of "''failed''"]
  note res = audio_accepted_db [OF assms(1) p]
  have r: "\<And>result. ?tr = Inr result \<Longrightarrow> writable e (?path @ ''.transcript.txt'') \<Longrightarrow>
      fst (analyze_and_store e
             (update_document_status (update_document_status ?d1 (int ?n + 1) ''transcribing'')
                (int ?n + 1) ''analyzing'')
             (int ?n + 1) dtype model (formatted_text result)) = r"
    using p by (simp add: process_audio_def Let_def split_beta)
  have fail: "\<not> (\<exists>result. ?tr = Inr result \<and> writable e (?path @ ''.transcript.txt''))
      \<Longrightarrow> r \<noteq> None"
    using pj by blast
  have tr: "trace = ''uploading'' # w @ (if r = None then [] else [''failed''])"
  proof (cases ?tr)
    case (Inl x)
    with fail have "r \<noteq> None" by simp
    with Inl assms(2) show ?thesis unfolding w_def by simp
  next
    case (Inr result)
    show ?thesis
    proof (cases "writable e (?path @ ''.transcript.txt'')")
      case False
      with fail have "r \<noteq> None" by simp
      with Inr False assms(2) show ?thesis unfolding w_def by simp
    next
      case True
      from r [OF Inr True] Inr True assms(2) show ?thesis unfolding w_def by simp
    qed
  qed
  have dd: "documents (snd ?run)
      = written (w @ (if r = None then [] else [''failed''])) ?n (documents ?d1)"
    using res pj uf l1 by (auto simp: written_append split: option.splits)
  show "journal (snd ?run) = journal d @ map (Pair (int ?n + 1)) trace"
    using res pj uf j1 tr by (auto split: option.splits)
  show "documents (snd ?run)
           = documents d @ [\<lparr> title = ttl, document_type = dtype,
                               file_path = ?path, status = last trace \<rparr>]"
    unfolding dd c1 tr by (simp add: written_def)
qed

lemma upload_document_trace:
  "\<exists>trace. trace \<in> set text_traces
     \<and> journal (snd (upload_document e d ttl dtype model file))
         = journal d @ map (Pair (int (length (documents d)) + 1)) trace
     \<and> documents (snd (upload_document e d ttl dtype model file))
         = (if trace = [] then documents d
            else documents d @ [\<lparr> title = ttl, document_type = dtype,
                                   file_path = saved_path e file, status = last trace \<rparr>])"
proof (cases "upload_accepted e dtype model file")
  case False
  from upload_document_rejected [OF False, of d ttl]
  have "snd (upload_document e d ttl dtype model file) = d" by simp
  moreover have "[] \<in> set text_traces" by (simp add: text_traces_def)
  ultimately show ?thesis by (intro exI [of _ "[]"]) simp
next
  case True
  define trace where "trace = (case extract_text_from_file e (saved_path e file) of
            Inl x \<Rightarrow> [''uploading'', ''failed'']
          | Inr t \<Rightarrow>
              if fst (analyze_and_store e
                        (update_document_status
                           (snd (create_document d ttl dtype (saved_path e file)))
                           (int (length (documents d)) + 1) ''processing'')
                        (int (length (documents d)) + 1) dtype model t) = None
              then [''uploading'', ''processing'', ''completed'']
              else [''uploading'', ''processing'', ''failed''])"
  note j = upload_document_journal [OF True trace_def]
  have m: "trace \<in> set text_traces" "trace \<noteq> []"
    unfolding trace_def by (auto simp: text_traces_def split: sum.splits)
  from j m show ?thesis by (intro exI [of _ trace]) simp
qed

lemma upload_audio_trace:
  "\<exists>trace. trace \<in> set audio_traces
     \<and> journal (snd (upload_audio_document e d ttl dtype model preset language detect file))
         = journal d @ map (Pair (int (length (documents d)) + 1)) trace
     \<and> documents (snd (upload_audio_document e d ttl dtype model preset language detect file))
         = (if trace = [] then documents d
            else documents d @ [\<lparr> title = ttl, document_type = dtype,
                                   file_path = saved_path e file, status = last trace \<rparr>])"
proof (cases "audio_accepted e dtype file")
  case False
  from audio_rejected [OF False, of d ttl model preset language detect]
  have "snd (upload_audio_document e d ttl dtype model preset language detect file) = d" by simp
  moreover have "[] \<in> set audio_traces" by (simp add: audio_traces_def)
  ultimately show ?thesis by (intro exI [of _ "[]"]) simp
next
  case True
  define trace where "trace = (case transcribe_audio_file e (saved_path e file) (file_size file)
                 (fst (preset_config preset)) language (snd (preset_config preset)) detect of
            Inl x \<Rightarrow> [''uploading'', ''transcribing'', ''failed'']
          | Inr result \<Rightarrow>
              if \<not> writable e (saved_path e file @ ''.transcript.txt'')
              then [''uploading'', ''transcribing'', ''failed'']
              else if fst (analyze_and_store e
                        (update_document_status
                           (update_document_status
                              (snd (create_document d ttl dtype (saved_path e file)))
                              (int (length (documents d)) + 1) ''transcribing'')
                           (int (length (documents d)) + 1) ''analyzing'')
                        (int (length (documents d)) + 1) dtype model (formatted_text result)) = None
              then [''uploading'', ''transcribing'', ''analyzing'', ''completed'']
              else [''uploading'', ''transcribing'', ''analyzing'', ''failed''])"
  note j = upload_audio_journal [OF True trace_def]
  have m: "trace \<in> set audio_traces" "trace \<noteq> []"
    unfolding trace_def by (auto simp: audio_traces_def split: sum.splits)
  from j m show ?thesis by (intro exI [of _ trace]) simp
qed

section \<open>Runs of the examples, and the status property\<close>

lemma analyze_and_store_defaults:
  assumes "analyze_document_content e t m = Inr get_default_analysis"
    and "analyze_sections_content e t m = Inr (get_default_sections t)"
  shows "fst (analyze_and_store e d doc_id dtype m t) = None"
  unfolding analyze_and_store_def assms
  by (simp add: store_analysis_def read_scores_def get_default_analysis_def create_analysis_def
      score_values_def get_default_sections_def store_section_def create_section_def
      create_metrics_def Let_def)

lemma analyze_and_store_empty_object:
  assumes "analyze_document_content e t m = Inr (JObj [])"
  shows "fst (analyze_and_store e d doc_id dtype m t) = Some (KeyError ''overall_sentiment'')"
  unfolding analyze_and_store_def assms
  by (simp add: store_analysis_def Let_def)

lemma ext_q1: "lower (splitext_ext ''q1.txt'') = ''.txt''"
  by code_simp

lemma suffix_q1: "lower (path_suffix ''data/uploads/20240101_120000_q1.txt'') = ''.txt''"
  by code_simp

lemma ext_call: "lower (splitext_ext ''call.mp3'') = ''.mp3''"
  by code_simp

lemma suffix_call: "lower (path_suffix ''data/uploads/20240101_120000_call.mp3'') = ''.mp3''"
  by code_simp

lemma ready_fields:
  "json_loads env_ready = example_loads"
  "tags_for_status env_ready = HttpResponse 200 ''installed-models''"
  "tags_for_models env_ready = HttpResponse 200 ''installed-models''"
  "post_generate env_ready = (\<lambda>model p. HttpResponse 200 ''wrapped-not-json'')"
  "print_error env_ready = (\<lambda>msg. None)"
  "now_stamp env_ready = ''20240101_120000''"
  "writable env_ready = (\<lambda>path. True)"
  "read_text env_ready = (\<lambda>path. Inr ''Revenue grew.'')"
  by (simp_all add: env_ready_def env_unreachable_def)

lemma ready_status: "check_ollama_status env_ready = Available [JStr ''llama3.2'']"
  by (simp add: check_ollama_status_def ready_fields listed_model_names_def example_loads_def)

lemma ready_models: "get_available_models env_ready = Inr [JStr ''llama3.2'']"
  by (simp add: get_available_models_def ready_fields listed_model_names_def example_loads_def)

lemma ready_path: "saved_path env_ready small_txt = ''data/uploads/20240101_120000_q1.txt''"
  by (simp add: saved_path_def ready_fields small_txt_def)

lemma ready_accepted: "upload_accepted env_ready ''other'' ''llama3.2'' small_txt"
  unfolding upload_accepted_def ready_status ready_models ready_path
  by (simp add: small_txt_def ext_q1 valid_types_def allowed_extensions_def ready_fields)

lemma ready_extract:
  "extract_text_from_file env_ready ''data/uploads/20240101_120000_q1.txt'' = Inr ''Revenue grew.''"
  by (simp add: extract_text_from_file_def suffix_q1 extract_text_from_txt_def ready_fields)

lemma ready_not_json: "call_fails_or_not_json env_ready model p"
  by (simp add: call_fails_or_not_json_def call_ollama_def ready_fields example_loads_def)

lemma ready_analysis:
  "analyze_document_content env_ready t m = Inr get_default_analysis"
  "analyze_sections_content env_ready t m = Inr (get_default_sections t)"
  by (simp_all add: analyze_document_default analyze_sections_default ready_not_json ready_fields)

lemma run_text_completed:
  "journal (snd (upload_document env_ready init_db ''Test'' ''other'' ''llama3.2'' small_txt))
     = [(1, ''uploading''), (1, ''processing''), (1, ''completed'')]"
  "map status (documents
       (snd (upload_document env_ready init_db ''Test'' ''other'' ''llama3.2'' small_txt)))
     = [''completed'']"
  unfolding upload_document_journal [OF ready_accepted refl] ready_path ready_extract
  by (simp_all add: analyze_and_store_defaults ready_analysis init_db_def)

lemma no_text_fields:
  "json_loads env_no_text = example_loads"
  "tags_for_status env_no_text = HttpResponse 200 ''installed-models''"
  "tags_for_models env_no_text = HttpResponse 200 ''installed-models''"
  "now_stamp env_no_text = ''20240101_120000''"
  "writable env_no_text = (\<lambda>path. True)"
  "read_text env_no_text = (\<lambda>path. Inl OSError)"
  by (simp_all add: env_no_text_def env_ready_def env_unreachable_def)

lemma no_text_accepted: "upload_accepted env_no_text ''other'' ''llama3.2'' small_txt"
  unfolding upload_accepted_def
  by (simp add: check_ollama_status_def get_available_models_def listed_model_names_def
      example_loads_def no_text_fields saved_path_def small_txt_def ext_q1 valid_types_def
      allowed_extensions_def)

lemma no_text_extract:
  "extract_text_from_file env_no_text (saved_path env_no_text small_txt) = Inl OSError"
  by (simp add: saved_path_def no_text_fields small_txt_def extract_text_from_file_def suffix_q1
      extract_text_from_txt_def)

lemma run_text_failed_uploading:
  "journal (snd (upload_document env_no_text init_db ''Test'' ''other'' ''llama3.2'' small_txt))
     = [(1, ''uploading''), (1, ''failed'')]"
  "map status (documents
       (snd (upload_document env_no_text init_db ''Test'' ''other'' ''llama3.2'' small_txt)))
     = [''failed'']"
  unfolding upload_document_journal [OF no_text_accepted refl] no_text_extract
  by (simp_all add: init_db_def)

lemma empty_object_fields:
  "json_loads env_empty_object = example_loads"
  "tags_for_status env_empty_object = HttpResponse 200 ''installed-models''"
  "tags_for_models env_empty_object = HttpResponse 200 ''installed-models''"
  "post_generate env_empty_object = (\<lambda>model p. HttpResponse 200 ''wrapped-empty-object'')"
  "print_error env_empty_object = (\<lambda>msg. None)"
  "now_stamp env_empty_object = ''20240101_120000''"
  "writable env_empty_object = (\<lambda>path. True)"
  "read_text env_empty_object = (\<lambda>path. Inr ''Revenue grew.'')"
  by (simp_all add: env_empty_object_def env_ready_def env_unreachable_def)

lemma empty_object_accepted: "upload_accepted env_empty_object ''other'' ''llama3.2'' small_txt"
  unfolding upload_accepted_def
  by (simp add: check_ollama_status_def get_available_models_def listed_model_names_def
      example_loads_def empty_object_fields saved_path_def small_txt_def ext_q1 valid_types_def
      allowed_extensions_def)

lemma empty_object_extract:
  "extract_text_from_file env_empty_object (saved_path env_empty_object small_txt)
     = Inr ''Revenue grew.''"
  by (simp add: saved_path_def empty_object_fields small_txt_def extract_text_from_file_def
      suffix_q1 extract_text_from_txt_def)

lemma empty_object_analysis: "analyze_document_content env_empty_object t m = Inr (JObj [])"
  by (simp add: analyze_document_content_def call_ollama_def empty_object_fields
      example_loads_def)

lemma run_text_failed_processing:
  "journal (snd (upload_document env_empty_object init_db ''Test'' ''other'' ''llama3.2'' small_txt))
     = [(1, ''uploading''), (1, ''processing''), (1, ''failed'')]"
  "map status (documents
       (snd (upload_document env_empty_object init_db ''Test'' ''other'' ''llama3.2'' small_txt)))
     = [''failed'']"
  unfolding upload_document_journal [OF empty_object_accepted refl] empty_object_extract
  by (simp_all add: init_db_def analyze_and_store_empty_object [OF empty_object_analysis])

lemma call_accepted: "audio_accepted e ''earnings_call'' call_mp3 = writable e (saved_path e call_mp3)"
  by (simp add: audio_accepted_def valid_types_def call_mp3_def ext_call audio_extensions_def)

lemma unreachable_fields:
  "now_stamp env_unreachable = ''20240101_120000''"
  "writable env_unreachable = (\<lambda>path. True)"
  "print_error env_unreachable = (\<lambda>msg. None)"
  "whisper_available env_unreachable = False"
  "audio_duration env_unreachable = (\<lambda>path. Inr 0)"
  by (simp_all add: env_unreachable_def)

lemma balanced_preset: "preset_config ''balanced'' = (''whisper-local'', ''base'')"
  by (simp add: preset_config_def transcription_presets_def)

lemma unreachable_transcribe:
  "transcribe_audio_file env_unreachable (saved_path env_unreachable call_mp3)
     (file_size call_mp3) (fst (preset_config ''balanced'')) ''en''
     (snd (preset_config ''balanced'')) True = Inl ImportError"
  by (simp add: balanced_preset transcribe_audio_file_def saved_path_def call_mp3_def
      unreachable_fields validate_audio_file_def suffix_call audio_extensions_def
      transcriber_backend_def py_print_def)

lemma run_audio_failed_transcribing:
  "journal (snd (upload_audio_document env_unreachable init_db ''Call'' ''earnings_call''
                   ''llama3.2'' ''balanced'' ''en'' True call_mp3))
     = [(1, ''uploading''), (1, ''transcribing''), (1, ''failed'')]"
  "map status (documents
       (snd (upload_audio_document env_unreachable init_db ''Call'' ''earnings_call''
               ''llama3.2'' ''balanced'' ''en'' True call_mp3)))
     = [''failed'']"
proof -
  have acc: "audio_accepted env_unreachable ''earnings_call'' call_mp3"
    by (simp add: call_accepted unreachable_fields)
  show "journal (snd (upload_audio_document env_unreachable init_db ''Call'' ''earnings_call''
                   ''llama3.2'' ''balanced'' ''en'' True call_mp3))
     = [(1, ''uploading''), (1, ''transcribing''), (1, ''failed'')]"
    unfolding upload_audio_journal(1) [OF acc refl] unreachable_transcribe
    by (simp add: init_db_def)
  show "map status (documents
       (snd (upload_audio_document env_unreachable init_db ''Call'' ''earnings_call''
               ''llama3.2'' ''balanced'' ''en'' True call_mp3)))
     = [''failed'']"
    unfolding upload_audio_journal(2) [OF acc refl] unreachable_transcribe
    by (simp add: init_db_def)
qed

lemma whisper_fields:
  "json_loads env_whisper = example_loads"
  "post_generate env_whisper = (\<lambda>model p. RequestFailed ConnectionError)"
  "print_error env_whisper = (\<lambda>msg. None)"
  "now_stamp env_whisper = ''20240101_120000''"
  "writable env_whisper = (\<lambda>path. True)"
  "whisper_available env_whisper = True"
  "audio_duration env_whisper = (\<lambda>path. Inr 0)"
  "whisper_load_model env_whisper = (\<lambda>model_size. None)"
  "whisper_local env_whisper = (\<lambda>path language model_size.
           Inr \<lparr> tr_text = ''Good morning. Revenue grew.'', tr_language = ''en'',
                 tr_segments = [seg_a, seg_b] \<rparr>)"
  by (simp_all add: env_whisper_def env_unreachable_def)

lemma whisper_transcribes:
  "\<exists>result. transcribe_audio_file env_whisper (saved_path env_whisper call_mp3)
       (file_size call_mp3) (fst (preset_config ''balanced'')) ''en''
       (snd (preset_config ''balanced'')) True = Inr result"
  by (simp add: balanced_preset saved_path_def call_mp3_def transcribe_audio_file_def
      validate_audio_file_def suffix_call audio_extensions_def whisper_fields
      transcriber_backend_def transcribe_def transcribe_local_def py_print_def Let_def)

lemma whisper_call_fails: "call_fails_or_not_json env_whisper model p"
  by (simp add: call_fails_or_not_json_def call_ollama_def whisper_fields)

lemma whisper_analysis:
  "analyze_document_content env_whisper t m = Inr get_default_analysis"
  "analyze_sections_content env_whisper t m = Inr (get_default_sections t)"
  by (simp_all add: analyze_document_default analyze_sections_default whisper_call_fails
      whisper_fields)

lemma run_audio_completed:
  "journal (snd (upload_audio_document env_whisper init_db ''Call'' ''earnings_call''
                   ''llama3.2'' ''balanced'' ''en'' True call_mp3))
     = [(1, ''uploading''), (1, ''transcribing''), (1, ''analyzing''), (1, ''completed'')]"
  "map status (documents
       (snd (upload_audio_document env_whisper init_db ''Call'' ''earnings_call''
               ''llama3.2'' ''balanced'' ''en'' True call_mp3)))
     = [''completed'']"
proof -
  have acc: "audio_accepted env_whisper ''earnings_call'' call_mp3"
    by (simp add: call_accepted whisper_fields)
  from whisper_transcribes obtain result where
    r: "transcribe_audio_file env_whisper (saved_path env_whisper call_mp3)
       (file_size call_mp3) (fst (preset_config ''balanced'')) ''en''
       (snd (preset_config ''balanced'')) True = Inr result" by blast
  show "journal (snd (upload_audio_document env_whisper init_db ''Call'' ''earnings_call''
                   ''llama3.2'' ''balanced'' ''en'' True call_mp3))
     = [(1, ''uploading''), (1, ''transcribing''), (1, ''analyzing''), (1, ''completed'')]"
    unfolding upload_audio_journal(1) [OF acc refl] r
    by (simp add: whisper_fields init_db_def analyze_and_store_defaults whisper_analysis)
  show "map status (documents
       (snd (upload_audio_document env_whisper init_db ''Call'' ''earnings_call''
               ''llama3.2'' ''balanced'' ''en'' True call_mp3)))
     = [''completed'']"
    unfolding upload_audio_journal(2) [OF acc refl] r
    by (simp add: whisper_fields init_db_def analyze_and_store_defaults whisper_analysis)
qed

lemma whisper_empty_object_fields:
  "json_loads env_whisper_empty_object = example_loads"
  "post_generate env_whisper_empty_object = (\<lambda>model p. HttpResponse 200 ''wrapped-empty-object'')"
  "print_error env_whisper_empty_object = (\<lambda>msg. None)"
  "now_stamp env_whisper_empty_object = ''20240101_120000''"
  "writable env_whisper_empty_object = (\<lambda>path. True)"
  "whisper_available env_whisper_empty_object = True"
  "audio_duration env_whisper_empty_object = (\<lambda>path. Inr 0)"
  "whisper_load_model env_whisper_empty_object = (\<lambda>model_size. None)"
  "whisper_local env_whisper_empty_object = (\<lambda>path language model_size.
           Inr \<lparr> tr_text = ''Good morning. Revenue grew.'', tr_language = ''en'',
                 tr_segments = [seg_a, seg_b] \<rparr>)"
  by (simp_all add: env_whisper_empty_object_def env_whisper_def env_unreachable_def)

lemma whisper_empty_object_transcribes:
  "\<exists>result. transcribe_audio_file env_whisper_empty_object
       (saved_path env_whisper_empty_object call_mp3) (file_size call_mp3)
       (fst (preset_config ''balanced'')) ''en'' (snd (preset_config ''balanced'')) True
     = Inr result"
  by (simp add: balanced_preset saved_path_def call_mp3_def transcribe_audio_file_def
      validate_audio_file_def suffix_call audio_extensions_def whisper_empty_object_fields
      transcriber_backend_def transcribe_def transcribe_local_def py_print_def Let_def)

lemma whisper_empty_object_analysis:
  "analyze_document_content env_whisper_empty_object t m = Inr (JObj [])"
  by (simp add: analyze_document_content_def call_ollama_def whisper_empty_object_fields
      example_loads_def)

lemma run_audio_failed_analyzing:
  "journal (snd (upload_audio_document env_whisper_empty_object init_db ''Call'' ''earnings_call''
                   ''llama3.2'' ''balanced'' ''en'' True call_mp3))
     = [(1, ''uploading''), (1, ''transcribing''), (1, ''analyzing''), (1, ''failed'')]"
  "map status (documents
       (snd (upload_audio_document env_whisper_empty_object init_db ''Call'' ''earnings_call''
               ''llama3.2'' ''balanced'' ''en'' True call_mp3)))
     = [''failed'']"
proof -
  have acc: "audio_accepted env_whisper_empty_object ''earnings_call'' call_mp3"
    by (simp add: call_accepted whisper_empty_object_fields)
  from whisper_empty_object_transcribes obtain result where
    r: "transcribe_audio_file env_whisper_empty_object
       (saved_path env_whisper_empty_object call_mp3) (file_size call_mp3)
       (fst (preset_config ''balanced'')) ''en'' (snd (preset_config ''balanced'')) True
     = Inr result" by blast
  show "journal (snd (upload_audio_document env_whisper_empty_object init_db ''Call''
                   ''earnings_call'' ''llama3.2'' ''balanced'' ''en'' True call_mp3))
     = [(1, ''uploading''), (1, ''transcribing''), (1, ''analyzing''), (1, ''failed'')]"
    unfolding upload_audio_journal(1) [OF acc refl] r
    by (simp add: whisper_empty_object_fields init_db_def
        analyze_and_store_empty_object [OF whisper_empty_object_analysis])
  show "map status (documents
       (snd (upload_audio_document env_whisper_empty_object init_db ''Call'' ''earnings_call''
               ''llama3.2'' ''balanced'' ''en'' True call_mp3)))
     = [''failed'']"
    unfolding upload_audio_journal(2) [OF acc refl] r
    by (simp add: whisper_empty_object_fields init_db_def
        analyze_and_store_empty_object [OF whisper_empty_object_analysis])
qed

lemma text_traces_forward:
  "t \<in> set text_traces \<Longrightarrow>
   forward_chain t \<and> (\<forall>i. Suc i < length t \<longrightarrow> \<not> terminal (t ! i))"
  by (auto simp: text_traces_def status_step_def terminal_def less_Suc_eq)

lemma audio_traces_forward:
  "t \<in> set audio_traces \<Longrightarrow>
   forward_chain t \<and> (\<forall>i. Suc i < length t \<longrightarrow> \<not> terminal (t ! i))"
  by (auto simp: audio_traces_def status_step_def terminal_def less_Suc_eq)

text \<open>
  Claim C2. The status column of a Document is written by the insert of the row, which
  sets it to uploading, and by \<open>update_document_status\<close>, which overwrites it; each of
  the two appends exactly that write to the log, and nothing else does. The writes
  that one upload commits for its document, in commit order, are one of four sequences
  for a text upload and one of four for an audio upload; each of them steps only along
  the allowed transitions, and no write follows completed or failed. After the upload
  the Document table is the table before it, followed, when there was a write, by the
  row of the upload with the last status written. The state failed is reached from
  each of the four states that are not terminal: the last four statements are runs
  that do so.
\<close>

theorem status_moves_only_forward:
  "(\<exists>trace. trace \<in> set text_traces \<and> forward_chain trace
       \<and> (\<forall>i. Suc i < length trace \<longrightarrow> \<not> terminal (trace ! i))
       \<and> journal (snd (upload_document e d ttl dtype model up))
           = journal d @ map (Pair (int (length (documents d)) + 1)) trace
       \<and> documents (snd (upload_document e d ttl dtype model up))
           = (if trace = [] then documents d
              else documents d @ [\<lparr> title = ttl, document_type = dtype,
                                     file_path = saved_path e up, status = last trace \<rparr>]))
   \<and> (\<exists>trace. trace \<in> set audio_traces \<and> forward_chain trace
       \<and> (\<forall>i. Suc i < length trace \<longrightarrow> \<not> terminal (trace ! i))
       \<and> journal (snd (upload_audio_document e d ttl dtype model preset language detect up))
           = journal d @ map (Pair (int (length (documents d)) + 1)) trace
       \<and> documents (snd (upload_audio_document e d ttl dtype model preset language detect up))
           = (if trace = [] then documents d
              else documents d @ [\<lparr> title = ttl, document_type = dtype,
                                     file_path = saved_path e up, status = last trace \<rparr>]))
   \<and> (1 \<le> k \<and> k \<le> int (length (documents d)) \<longrightarrow>
        journal (update_document_status d k st) = journal d @ [(k, st)]
        \<and> documents (update_document_status d k st)
            = (documents d)[nat (k - 1) := (documents d ! nat (k - 1))\<lparr>status := st\<rparr>])
   \<and> journal (snd (create_document d ttl dtype path))
       = journal d @ [(int (length (documents d)) + 1, ''uploading'')]
   \<and> documents (snd (create_document d ttl dtype path))
       = documents d @ [\<lparr> title = ttl, document_type = dtype, file_path = path,
                           status = ''uploading'' \<rparr>]
   \<and> journal (snd (upload_document env_no_text init_db ''Test'' ''other'' ''llama3.2'' small_txt))
       = [(1, ''uploading''), (1, ''failed'')]
   \<and> journal (snd (upload_document env_empty_object init_db ''Test'' ''other'' ''llama3.2'' small_txt))
       = [(1, ''uploading''), (1, ''processing''), (1, ''failed'')]
   \<and> journal (snd (upload_audio_document env_unreachable init_db ''Call'' ''earnings_call''
                     ''llama3.2'' ''balanced'' ''en'' True call_mp3))
       = [(1, ''uploading''), (1, ''transcribing''), (1, ''failed'')]
   \<and> journal (snd (upload_audio_document env_whisper_empty_object init_db ''Call''
                     ''earnings_call'' ''llama3.2'' ''balanced'' ''en'' True call_mp3))
       = [(1, ''uploading''), (1, ''transcribing''), (1, ''analyzing''), (1, ''failed'')]"
proof (intro conjI impI)
  from upload_document_trace [of e d ttl dtype model up] text_traces_forward
  show "\<exists>trace. trace \<in> set text_traces \<and> forward_chain trace
       \<and> (\<forall>i. Suc i < length trace \<longrightarrow> \<not> terminal (trace ! i))
       \<and> journal (snd (upload_document e d ttl dtype model up))
           = journal d @ map (Pair (int (length (documents d)) + 1)) trace
       \<and> documents (snd (upload_document e d ttl dtype model up))
           = (if trace = [] then documents d
              else documents d @ [\<lparr> title = ttl, document_type = dtype,
                                     file_path = saved_path e up, status = last trace \<rparr>])"
    by blast
  from upload_audio_trace [of e d ttl dtype model preset language detect up] audio_traces_forward
  show "\<exists>trace. trace \<in> set audio_traces \<and> forward_chain trace
       \<and> (\<forall>i. Suc i < length trace \<longrightarrow> \<not> terminal (trace ! i))
       \<and> journal (snd (upload_audio_document e d ttl dtype model preset language detect up))
           = journal d @ map (Pair (int (length (documents d)) + 1)) trace
       \<and> documents (snd (upload_audio_document e d ttl dtype model preset language detect up))
           = (if trace = [] then documents d
              else documents d @ [\<lparr> title = ttl, document_type = dtype,
                                     file_path = saved_path e up, status = last trace \<rparr>])"
    by blast
next
  assume k: "1 \<le> k \<and> k \<le> int (length (documents d))"
  then show "journal (update_document_status d k st) = journal d @ [(k, st)]"
    by (simp add: update_status_journal)
  from k show "documents (update_document_status d k st)
            = (documents d)[nat (k - 1) := (documents d ! nat (k - 1))\<lparr>status := st\<rparr>]"
    by (simp add: update_status_documents)
next
  show "journal (snd (create_document d ttl dtype path))
       = journal d @ [(int (length (documents d)) + 1, ''uploading'')]"
    by (simp add: create_document_frame)
  show "documents (snd (create_document d ttl dtype path))
       = documents d @ [\<lparr> title = ttl, document_type = dtype, file_path = path,
                           status = ''uploading'' \<rparr>]"
    by (simp add: create_document_frame)
qed (rule run_text_failed_uploading(1) run_text_failed_processing(1)
      run_audio_failed_transcribing(1) run_audio_failed_analyzing(1))+

theorem status_moves_only_forward_witness:
  "journal (snd (upload_document env_ready init_db ''Test'' ''other'' ''llama3.2'' small_txt))
     = [(1, ''uploading''), (1, ''processing''), (1, ''completed'')]
   \<and> map status (documents
        (snd (upload_document env_ready init_db ''Test'' ''other'' ''llama3.2'' small_txt)))
     = [''completed'']
   \<and> (\<exists>trace. trace \<in> set text_traces \<and> forward_chain trace
         \<and> journal (snd (upload_document env_ready init_db ''Test'' ''other'' ''llama3.2'' small_txt))
             = journal init_db @ map (Pair (int (length (documents init_db)) + 1)) trace
         \<and> documents (snd (upload_document env_ready init_db ''Test'' ''other'' ''llama3.2'' small_txt))
             = (if trace = [] then documents init_db
                else documents init_db @ [\<lparr> title = ''Test'', document_type = ''other'',
                       file_path = saved_path env_ready small_txt, status = last trace \<rparr>]))
   \<and> journal (snd (upload_audio_document env_whisper init_db ''Call'' ''earnings_call''
                     ''llama3.2'' ''balanced'' ''en'' True call_mp3))
     = [(1, ''uploading''), (1, ''transcribing''), (1, ''analyzing''), (1, ''completed'')]
   \<and> (1 :: int) \<le> 2 \<and> 2 \<le> int (length (documents two_documents))
   \<and> map status (documents (update_document_status two_documents 2 ''processing''))
       = [''uploading'', ''processing'']
   \<and> journal (update_document_status two_documents 2 ''processing'')
       = [(1, ''uploading''), (2, ''uploading''), (2, ''processing'')]"
proof -
  note t = status_moves_only_forward [where e = env_ready and d = init_db and ttl = "''Test''"
      and dtype = "''other''" and model = "''llama3.2''" and up = small_txt]
  note u = status_moves_only_forward [where d = two_documents and k = 2 and st = "''processing''"]
  have two: "documents two_documents
      = [\<lparr> title = ''Q1 results'', document_type = ''press_release'',
            file_path = ''data/uploads/a.txt'', status = ''uploading'' \<rparr>,
         \<lparr> title = ''Q1 call'', document_type = ''earnings_call'',
            file_path = ''data/uploads/b.txt'', status = ''uploading'' \<rparr>]"
    "journal two_documents = [(1, ''uploading''), (2, ''uploading'')]"
    by (simp_all add: two_documents_def create_document_def init_db_def Let_def)
  have r: "(1 :: int) \<le> 2 \<and> 2 \<le> int (length (documents two_documents))"
    by (simp add: two)
  from u [THEN conjunct2, THEN conjunct2, THEN conjunct1] r
  have w: "journal (update_document_status two_documents 2 ''processing'')
        = journal two_documents @ [(2, ''processing'')]"
      "documents (update_document_status two_documents 2 ''processing'')
        = (documents two_documents)[nat (2 - 1)
             := (documents two_documents ! nat (2 - 1))\<lparr>status := ''processing''\<rparr>]"
    by blast+
  have w2: "map status (documents (update_document_status two_documents 2 ''processing''))
       = [''uploading'', ''processing'']"
    unfolding w(2) by (simp add: two)
  have w1: "journal (update_document_status two_documents 2 ''processing'')
       = [(1, ''uploading''), (2, ''uploading''), (2, ''processing'')]"
    unfolding w(1) by (simp add: two)
  from t [THEN conjunct1]
  have ex: "\<exists>trace. trace \<in> set text_traces \<and> forward_chain trace
         \<and> journal (snd (upload_document env_ready init_db ''Test'' ''other'' ''llama3.2'' small_txt))
             = journal init_db @ map (Pair (int (length (documents init_db)) + 1)) trace
         \<and> documents (snd (upload_document env_ready init_db ''Test'' ''other'' ''llama3.2'' small_txt))
             = (if trace = [] then documents init_db
                else documents init_db @ [\<lparr> title = ''Test'', document_type = ''other'',
                       file_path = saved_path env_ready small_txt, status = last trace \<rparr>])"
    by blast
  from ex r w1 w2 run_text_completed run_audio_completed(1) show ?thesis by blast
qed

section \<open>Completed uploads\<close>

lemma store_analysis_independent:
  "(\<exists>y. store_analysis e d doc_id r = Inr y) \<longleftrightarrow> analysis_storable e r"
  by (auto simp: analysis_storable_def store_analysis_def create_analysis_def then_do_def
      split: sum.splits option.splits)

lemma first_bind_error_tail: "first_bind_error (v # vs) = None \<Longrightarrow> first_bind_error vs = None"
  by (simp split: option.splits)

lemma store_analysis_metrics:
  assumes "store_analysis e d doc_id r = Inr y"
  shows "\<exists>sc. read_scores r = Inr sc \<and> first_bind_error (score_values sc) = None"
proof -
  from assms obtain sentiment sc themes tone lmetrics where
    rs: "read_scores r = Inr sc"
    and c: "create_analysis e d doc_id sentiment sc themes tone lmetrics = Inr y"
    unfolding store_analysis_def by (auto dest!: then_do_Inr)
  from c have "first_bind_error (sentiment # score_values sc) = None"
    by (auto simp: create_analysis_def split: option.splits)
  with rs first_bind_error_tail show ?thesis by blast
qed

text \<open>
  The shared statements run to their end exactly when the document-level result can be
  stored and every section can be stored; an empty list of sections stores nothing.
\<close>

lemma analyze_and_store_no_sections:
  assumes "analyze_document_content e t m = Inr result"
    and "analysis_storable e result"
    and "analyze_sections_content e t m = Inr (JArr [])"
  shows "fst (analyze_and_store e d doc_id dtype m t) = None"
    and "sections (snd (analyze_and_store e d doc_id dtype m t)) = sections d"
    and "length (analyses (snd (analyze_and_store e d doc_id dtype m t)))
           = Suc (length (analyses d))"
proof -
  from assms(2) store_analysis_independent [of e d doc_id result]
  obtain an_id d2 where s: "store_analysis e d doc_id result = Inr (an_id, d2)"
    by auto
  from store_analysis_metrics [OF s] obtain sc where
    sc: "read_scores result = Inr sc" "first_bind_error (score_values sc) = None" by blast
  note fr = store_analysis_Inr [OF s]
  from fr(2) have len: "length (analyses d2) = Suc (length (analyses d))" by auto
  have run: "analyze_and_store e d doc_id dtype m t
      = (None, update_document_status (snd (projr (create_metrics e d2 doc_id an_id dtype sc)))
                 doc_id ''completed'')"
    unfolding analyze_and_store_def
    by (simp add: assms(1,3) s sc create_metrics_def Let_def)
  show "fst (analyze_and_store e d doc_id dtype m t) = None"
    unfolding run by simp
  show "sections (snd (analyze_and_store e d doc_id dtype m t)) = sections d"
    unfolding run by (simp add: update_status_frame create_metrics_def sc fr)
  show "length (analyses (snd (analyze_and_store e d doc_id dtype m t)))
           = Suc (length (analyses d))"
    unfolding run by (simp add: update_status_frame create_metrics_def sc len)
qed

lemma analyze_and_store_completed:
  assumes "analyze_and_store e d1 doc_id dtype model t = (None, d2)"
  shows "\<exists>row result sc secs new.
           analyze_document_content e t model = Inr result
         \<and> read_scores result = Inr sc
         \<and> then_do (analyze_sections_content e t model) py_iter = Inr secs
         \<and> analyses d2 = analyses d1 @ [row]
         \<and> document_id row = doc_id
         \<and> score_values row = map (integer_affinity e) (score_values sc)
         \<and> sections d2 = sections d1 @ new
         \<and> length new = length secs
         \<and> map analysis_id new = replicate (length new) (int (length (analyses d1)) + 1)
         \<and> map section_order new = map int [0 ..< length new]"
  using assms
proof (cases rule: analyze_and_store_outcome)
  case (no_analysis x)
  then show ?thesis by simp
next
  case (stopped x row new)
  then show ?thesis by simp
next
  case (completed d4 result row sc secs new)
  have "analyze_document_content e t model = Inr result
         \<and> read_scores result = Inr sc
         \<and> then_do (analyze_sections_content e t model) py_iter = Inr secs
         \<and> analyses d2 = analyses d1 @ [row]
         \<and> document_id row = doc_id
         \<and> score_values row = map (integer_affinity e) (score_values sc)
         \<and> sections d2 = sections d1 @ new
         \<and> length new = length secs
         \<and> map analysis_id new = replicate (length new) (int (length (analyses d1)) + 1)
         \<and> map section_order new = map int [0 ..< length new]"
    using completed by (simp add: update_status_frame)
  then show ?thesis
    by (intro exI [of _ row] exI [of _ result] exI [of _ sc] exI [of _ secs] exI [of _ new])
qed

lemma upload_completed_run:
  assumes "map status (documents (snd (upload_document e d ttl dtype model up)))
             = map status (documents d) @ [''completed'']"
  shows "upload_accepted e dtype model up"
    and "\<exists>t. extract_text_from_file e (saved_path e up) = Inr t
           \<and> fst (analyze_and_store e
                   (update_document_status (snd (create_document d ttl dtype (saved_path e up)))
                      (int (length (documents d)) + 1) ''processing'')
                   (int (length (documents d)) + 1) dtype model t) = None"
proof -
  show acc: "upload_accepted e dtype model up"
  proof (rule ccontr)
    assume "\<not> upload_accepted e dtype model up"
    from upload_document_rejected [OF this, of d ttl] assms show False by simp
  qed
  from upload_document_journal(2) [OF acc refl, of d ttl] assms
  show "\<exists>t. extract_text_from_file e (saved_path e up) = Inr t
           \<and> fst (analyze_and_store e
                   (update_document_status (snd (create_document d ttl dtype (saved_path e up)))
                      (int (length (documents d)) + 1) ''processing'')
                   (int (length (documents d)) + 1) dtype model t) = None"
    by (auto split: sum.splits if_splits)
qed

lemma completed_upload_analysis:
  assumes "map status (documents (snd (upload_document e d ttl dtype model up)))
             = map status (documents d) @ [''completed'']"
  shows "\<exists>t row result sc secs new.
           extract_text_from_file e (saved_path e up) = Inr t
         \<and> analyze_document_content e t model = Inr result
         \<and> read_scores result = Inr sc
         \<and> then_do (analyze_sections_content e t model) py_iter = Inr secs
         \<and> analyses (snd (upload_document e d ttl dtype model up)) = analyses d @ [row]
         \<and> document_id row = int (length (documents d)) + 1
         \<and> score_values row = map (integer_affinity e) (score_values sc)
         \<and> sections (snd (upload_document e d ttl dtype model up)) = sections d @ new
         \<and> length new = length secs
         \<and> map analysis_id new = replicate (length new) (int (length (analyses d)) + 1)
         \<and> map section_order new = map int [0 ..< length new]"
proof -
  let ?n = "length (documents d)"
  let ?d1 = "snd (create_document d ttl dtype (saved_path e up))"
  let ?d = "update_document_status ?d1 (int ?n + 1) ''processing''"
  note acc = upload_completed_run(1) [OF assms]
  from upload_completed_run(2) [OF assms] obtain t where
    ex: "extract_text_from_file e (saved_path e up) = Inr t"
    and ok: "fst (analyze_and_store e ?d (int ?n + 1) dtype model t) = None"
    by blast
  obtain d2 where a: "analyze_and_store e ?d (int ?n + 1) dtype model t = (None, d2)"
    using ok by (cases "analyze_and_store e ?d (int ?n + 1) dtype model t") simp
  from ex a have p: "process_document e ?d1 (int ?n + 1) dtype model (saved_path e up) = (None, d2)"
    by (simp add: process_document_def)
  have res: "snd (upload_document e d ttl dtype model up) = d2"
    using upload_document_accepted_db [OF acc p] by simp
  have fr: "analyses ?d = analyses d" "sections ?d = sections d"
    by (simp_all add: update_status_frame create_document_frame)
  from analyze_and_store_completed [OF a] obtain row result sc secs new where
    c: "analyze_document_content e t model = Inr result
         \<and> read_scores result = Inr sc
         \<and> then_do (analyze_sections_content e t model) py_iter = Inr secs
         \<and> analyses d2 = analyses ?d @ [row]
         \<and> document_id row = int ?n + 1
         \<and> score_values row = map (integer_affinity e) (score_values sc)
         \<and> sections d2 = sections ?d @ new
         \<and> length new = length secs
         \<and> map analysis_id new = replicate (length new) (int (length (analyses ?d)) + 1)
         \<and> map section_order new = map int [0 ..< length new]"
    by (elim exE)
  have "extract_text_from_file e (saved_path e up) = Inr t
         \<and> analyze_document_content e t model = Inr result
         \<and> read_scores result = Inr sc
         \<and> then_do (analyze_sections_content e t model) py_iter = Inr secs
         \<and> analyses (snd (upload_document e d ttl dtype model up)) = analyses d @ [row]
         \<and> document_id row = int (length (documents d)) + 1
         \<and> score_values row = map (integer_affinity e) (score_values sc)
         \<and> sections (snd (upload_document e d ttl dtype model up)) = sections d @ new
         \<and> length new = length secs
         \<and> map analysis_id new = replicate (length new) (int (length (analyses d)) + 1)
         \<and> map section_order new = map int [0 ..< length new]"
    using c ex unfolding res fr by simp
  then show ?thesis
    by (intro exI [of _ t] exI [of _ row] exI [of _ result] exI [of _ sc] exI [of _ secs]
        exI [of _ new])
qed

lemma read_scores_default:
  "read_scores get_default_analysis
     = Inr \<lparr> sentiment_score = JInt 50, confidence_score = JInt 50, clarity_score = JInt 50,
             readability_score = JInt 50, specificity_score = JInt 50 \<rparr>"
  by (simp add: read_scores_def get_default_analysis_def)

lemma init_db_fields:
  "documents init_db = []" "analyses init_db = []" "sections init_db = []"
  "journal init_db = []"
  by (simp_all add: init_db_def)

lemma affinity_of_int [simp]: "integer_affinity e (JInt n) = JInt n"
  by (simp add: integer_affinity_def)

text \<open>
  Claim C3, as the code has it. When a text upload leaves its Document row with the
  status completed, the upload has added exactly one row to the analyses, linked to
  that Document, and its five scores are the five score entries of the backend's
  reply to the document prompt (or of the default), as the storage engine converts
  them. Nothing in the code compares a score with 0 or with 100.
\<close>

theorem completed_upload_has_its_analysis:
  assumes "map status (documents (snd (upload_document e d ttl dtype model up)))
             = map status (documents d) @ [''completed'']"
  shows "\<exists>t row result sc.
           extract_text_from_file e (saved_path e up) = Inr t
         \<and> analyze_document_content e t model = Inr result
         \<and> read_scores result = Inr sc
         \<and> analyses (snd (upload_document e d ttl dtype model up)) = analyses d @ [row]
         \<and> document_id row = int (length (documents d)) + 1
         \<and> score_values row = map (integer_affinity e) (score_values sc)"
proof -
  from completed_upload_analysis [OF assms] obtain t row result sc secs new where
    c: "extract_text_from_file e (saved_path e up) = Inr t
         \<and> analyze_document_content e t model = Inr result
         \<and> read_scores result = Inr sc
         \<and> then_do (analyze_sections_content e t model) py_iter = Inr secs
         \<and> analyses (snd (upload_document e d ttl dtype model up)) = analyses d @ [row]
         \<and> document_id row = int (length (documents d)) + 1
         \<and> score_values row = map (integer_affinity e) (score_values sc)
         \<and> sections (snd (upload_document e d ttl dtype model up)) = sections d @ new
         \<and> length new = length secs
         \<and> map analysis_id new = replicate (length new) (int (length (analyses d)) + 1)
         \<and> map section_order new = map int [0 ..< length new]"
    by (elim exE)
  then have "extract_text_from_file e (saved_path e up) = Inr t
         \<and> analyze_document_content e t model = Inr result
         \<and> read_scores result = Inr sc
         \<and> analyses (snd (upload_document e d ttl dtype model up)) = analyses d @ [row]
         \<and> document_id row = int (length (documents d)) + 1
         \<and> score_values row = map (integer_affinity e) (score_values sc)"
    by simp
  then show ?thesis
    by (intro exI [of _ t] exI [of _ row] exI [of _ result] exI [of _ sc])
qed

theorem completed_upload_has_its_analysis_witness:
  "map status (documents
       (snd (upload_document env_ready init_db ''Test'' ''other'' ''llama3.2'' small_txt)))
     = map status (documents init_db) @ [''completed'']
   \<and> (\<exists>row. analyses (snd (upload_document env_ready init_db ''Test'' ''other'' ''llama3.2''
                            small_txt)) = [row]
          \<and> document_id row = 1
          \<and> score_values row = [JInt 50, JInt 50, JInt 50, JInt 50, JInt 50])"
proof -
  have h: "map status (documents
       (snd (upload_document env_ready init_db ''Test'' ''other'' ''llama3.2'' small_txt)))
     = map status (documents init_db) @ [''completed'']"
    unfolding init_db_fields by (simp add: run_text_completed(2))
  from completed_upload_has_its_analysis [OF h] obtain t row result sc where
    c: "analyze_document_content env_ready t ''llama3.2'' = Inr result"
      "read_scores result = Inr sc"
      "analyses (snd (upload_document env_ready init_db ''Test'' ''other'' ''llama3.2'' small_txt))
         = analyses init_db @ [row]"
      "document_id row = int (length (documents init_db)) + 1"
      "score_values row = map (integer_affinity env_ready) (score_values sc)"
    by (elim exE conjE)
  from c(1) have "result = get_default_analysis" by (simp add: ready_analysis)
  with c(2) have "sc = \<lparr> sentiment_score = JInt 50, confidence_score = JInt 50,
      clarity_score = JInt 50, readability_score = JInt 50, specificity_score = JInt 50 \<rparr>"
    by (simp add: read_scores_default)
  with c(5) have s: "score_values row = [JInt 50, JInt 50, JInt 50, JInt 50, JInt 50]"
    by (simp add: score_values_def)
  from c(3,4) have "analyses (snd (upload_document env_ready init_db ''Test'' ''other''
      ''llama3.2'' small_txt)) = [row] \<and> document_id row = 1"
    by (simp add: init_db_fields)
  with s h show ?thesis by blast
qed

lemma score_150_fields:
  "json_loads env_score_150 = example_loads"
  "tags_for_status env_score_150 = HttpResponse 200 ''installed-models''"
  "tags_for_models env_score_150 = HttpResponse 200 ''installed-models''"
  "post_generate env_score_150 = (\<lambda>model p.
           case p of
             DocumentPrompt t \<Rightarrow> HttpResponse 200 ''wrapped-analysis-150''
           | SectionsPrompt t \<Rightarrow> HttpResponse 200 ''wrapped-empty-object'')"
  "print_error env_score_150 = (\<lambda>msg. None)"
  "now_stamp env_score_150 = ''20240101_120000''"
  "writable env_score_150 = (\<lambda>path. True)"
  "read_text env_score_150 = (\<lambda>path. Inr ''Revenue grew.'')"
  by (simp_all add: env_score_150_def env_ready_def env_unreachable_def)

lemma score_150_accepted: "upload_accepted env_score_150 ''other'' ''llama3.2'' small_txt"
  unfolding upload_accepted_def
  by (simp add: check_ollama_status_def get_available_models_def listed_model_names_def
      example_loads_def score_150_fields saved_path_def small_txt_def ext_q1 valid_types_def
      allowed_extensions_def)

lemma score_150_extract:
  "extract_text_from_file env_score_150 (saved_path env_score_150 small_txt)
     = Inr ''Revenue grew.''"
  by (simp add: saved_path_def score_150_fields small_txt_def extract_text_from_file_def
      suffix_q1 extract_text_from_txt_def)

lemma score_150_analysis:
  "analyze_document_content env_score_150 t m =
     Inr (JObj [
          (''overall_sentiment'', JStr ''positive''),
          (''sentiment_score'', JInt 150),
          (''confidence_score'', JInt 80),
          (''clarity_score'', JInt 80),
          (''readability_score'', JInt 80),
          (''specificity_score'', JInt 80),
          (''key_themes'', JArr []),
          (''emotional_tone'', JObj []),
          (''linguistic_metrics'', JObj [])])"
  by (simp add: analyze_document_content_def call_ollama_def score_150_fields example_loads_def)

lemma score_150_call:
  "call_ollama env_score_150 m (SectionsPrompt p) = Inr (JStr ''{}'')"
  "json_loads env_score_150 ''{}'' = Some (JObj [])"
  by (simp_all add: call_ollama_def score_150_fields example_loads_def)

lemma score_150_sections: "analyze_sections_content env_score_150 t m = Inr (JArr [])"
  by (simp add: analyze_sections_content_def score_150_call)

lemma score_150_storable:
  "analysis_storable env_score_150 (JObj [
          (''overall_sentiment'', JStr ''positive''),
          (''sentiment_score'', JInt 150),
          (''confidence_score'', JInt 80),
          (''clarity_score'', JInt 80),
          (''readability_score'', JInt 80),
          (''specificity_score'', JInt 80),
          (''key_themes'', JArr []),
          (''emotional_tone'', JObj []),
          (''linguistic_metrics'', JObj [])])"
  by (simp add: analysis_storable_def store_analysis_def read_scores_def create_analysis_def
      score_values_def)

lemma score_150_read:
  "read_scores (JObj [
          (''overall_sentiment'', JStr ''positive''),
          (''sentiment_score'', JInt 150),
          (''confidence_score'', JInt 80),
          (''clarity_score'', JInt 80),
          (''readability_score'', JInt 80),
          (''specificity_score'', JInt 80),
          (''key_themes'', JArr []),
          (''emotional_tone'', JObj []),
          (''linguistic_metrics'', JObj [])])
     = Inr \<lparr> sentiment_score = JInt 150, confidence_score = JInt 80, clarity_score = JInt 80,
             readability_score = JInt 80, specificity_score = JInt 80 \<rparr>"
  by (simp add: read_scores_def)

lemma score_150_completed:
  "map status (documents
       (snd (upload_document env_score_150 init_db ''Test'' ''other'' ''llama3.2'' small_txt)))
     = map status (documents init_db) @ [''completed'']"
  unfolding upload_document_journal(2) [OF score_150_accepted refl] score_150_extract
  by (simp add: init_db_fields
      analyze_and_store_no_sections(1) [OF score_150_analysis score_150_storable score_150_sections])

text \<open>
  The claim as written fails: the backend answers the document prompt with a complete
  analysis whose sentiment score is 150; the upload ends completed and the Analysis row
  of its Document holds the score 150.
\<close>

theorem score_150_stored_counterexample:
  "map status (documents
       (snd (upload_document env_score_150 init_db ''Test'' ''other'' ''llama3.2'' small_txt)))
     = [''completed'']
   \<and> (\<exists>row. analyses (snd (upload_document env_score_150 init_db ''Test'' ''other'' ''llama3.2''
                             small_txt)) = [row]
          \<and> document_id row = 1 \<and> sentiment_score row = JInt 150
          \<and> \<not> score_in_range (sentiment_score row))"
proof -
  note h = score_150_completed
  from completed_upload_analysis [OF h] obtain t row result sc where
    c: "analyze_document_content env_score_150 t ''llama3.2'' = Inr result"
      "read_scores result = Inr sc"
      "analyses (snd (upload_document env_score_150 init_db ''Test'' ''other'' ''llama3.2''
         small_txt)) = analyses init_db @ [row]"
      "document_id row = int (length (documents init_db)) + 1"
      "score_values row = map (integer_affinity env_score_150) (score_values sc)"
    by (elim exE conjE)
  from c(1,2) have "sc = \<lparr> sentiment_score = JInt 150, confidence_score = JInt 80,
      clarity_score = JInt 80, readability_score = JInt 80, specificity_score = JInt 80 \<rparr>"
    by (auto simp: score_150_analysis score_150_read)
  with c(5) have s: "sentiment_score row = JInt 150"
    by (simp add: score_values_def)
  from c(3,4) have a: "analyses (snd (upload_document env_score_150 init_db ''Test'' ''other''
      ''llama3.2'' small_txt)) = [row] \<and> document_id row = 1"
    by (simp add: init_db_fields)
  have st: "map status (documents
       (snd (upload_document env_score_150 init_db ''Test'' ''other'' ''llama3.2'' small_txt)))
     = [''completed'']"
    using h by (simp add: init_db_fields)
  from s a st show ?thesis by simp
qed

section \<open>Checks before processing\<close>

lemma bad_extension_rejected:
  assumes "lower (splitext_ext (filename up)) \<notin> set allowed_extensions"
  shows "snd (upload_document e d ttl dtype model up) = d"
    and "fst (upload_document e d ttl dtype model up)
           = Inl (HTTPException 400
               (if dtype \<in> set valid_types
                then FileTypeNotSupported (lower (splitext_ext (filename up)))
                else InvalidDocumentType))"
  using assms by (simp_all add: upload_document_def Let_def)

lemma big_txt_accepted: "upload_accepted env_ready ''other'' ''llama3.2'' big_txt"
  unfolding upload_accepted_def ready_status ready_models
  by (simp add: saved_path_def big_txt_def ext_q1 valid_types_def allowed_extensions_def
      ready_fields)

lemma big_txt_extract:
  "extract_text_from_file env_ready (saved_path env_ready big_txt) = Inr ''Revenue grew.''"
  by (simp add: saved_path_def ready_fields big_txt_def extract_text_from_file_def suffix_q1
      extract_text_from_txt_def)

lemma big_txt_run:
  "journal (snd (upload_document env_ready init_db ''Test'' ''other'' ''llama3.2'' big_txt))
     = [(1, ''uploading''), (1, ''processing''), (1, ''completed'')]"
  "map status (documents
       (snd (upload_document env_ready init_db ''Test'' ''other'' ''llama3.2'' big_txt)))
     = [''completed'']"
  unfolding upload_document_journal [OF big_txt_accepted refl] big_txt_extract
  by (simp_all add: analyze_and_store_defaults ready_analysis init_db_def)

text \<open>
  Claim C7 fails in the code for the size. \<open>upload_document\<close> checks the document
  type, the extension, the backend and the model, and never the size of the file:
  \<^verbatim>\<open>validate_file_size\<close> is defined and is called by no handler. A text file of 11
  megabytes with an allowed extension is saved, gets its Document row, is analysed and
  ends completed with an Analysis row.
\<close>

theorem oversized_upload_is_processed:
  "10 * 1024 * 1024 \<le> file_size big_txt
   \<and> \<not> validate_file_size (file_size big_txt) 10
   \<and> journal (snd (upload_document env_ready init_db ''Test'' ''other'' ''llama3.2'' big_txt))
       = [(1, ''uploading''), (1, ''processing''), (1, ''completed'')]
   \<and> map status (documents
         (snd (upload_document env_ready init_db ''Test'' ''other'' ''llama3.2'' big_txt)))
       = [''completed'']
   \<and> length (analyses
         (snd (upload_document env_ready init_db ''Test'' ''other'' ''llama3.2'' big_txt))) = 1"
proof -
  have h: "map status (documents
       (snd (upload_document env_ready init_db ''Test'' ''other'' ''llama3.2'' big_txt)))
     = map status (documents init_db) @ [''completed'']"
    unfolding init_db_fields by (simp add: big_txt_run(2))
  from completed_upload_analysis [OF h] obtain row where
    "analyses (snd (upload_document env_ready init_db ''Test'' ''other'' ''llama3.2'' big_txt))
       = analyses init_db @ [row]"
    by (elim exE conjE)
  then have a: "length (analyses
         (snd (upload_document env_ready init_db ''Test'' ''other'' ''llama3.2'' big_txt))) = 1"
    by (simp add: init_db_fields)
  have s: "10 * 1024 * 1024 \<le> file_size big_txt \<and> \<not> validate_file_size (file_size big_txt) 10"
    by (simp add: big_txt_def validate_file_size_def)
  from s a big_txt_run show ?thesis by simp
qed

section \<open>Uploads while the backend is unavailable\<close>






section \<open>Replies without sections\<close>







end
